theory Spec2Isabelle
  imports Complex_Main "HOL-Library.Word"
begin

unbundle bit_operations_syntax

section \<open>Python values and built-ins used by the probes\<close>

text \<open>
  A Python \<open>str\<close> is represented by the bytes of its UTF-8 encoding (\<open>string\<close>). The
  operations the probes use (splitting on an ASCII separator, membership of an ASCII
  character, \<open>startswith\<close>, \<open>endswith\<close>, substring search for an ASCII needle,
  concatenation) give the same answer on code points and on UTF-8 bytes. A string with
  a lone surrogate has no UTF-8 encoding and is not represented.

  The handlers of the source distinguish three classes of exception:
  \<open>requests.exceptions.RequestException\<close>, \<open>socket.gaierror\<close> and everything else
  below \<open>Exception\<close>. An exception is its class and the text \<open>str(e)\<close>. The text of an
  exception raised inside a library call stands for the wording of the library.
\<close>

type_synonym byte = "8 word"

datatype exn_class = RequestException | Gaierror | OtherException

datatype exn = Exn (exn_kind: exn_class) (exn_text: string)

text \<open>\<open>s.split(c)\<close> for a one-character separator: always at least one piece.\<close>

fun split_sep :: "'a \<Rightarrow> 'a list \<Rightarrow> 'a list list" where
  "split_sep c [] = [[]]"
| "split_sep c (x # xs) =
     (if x = c then [] # split_sep c xs
      else (case split_sep c xs of
              [] \<Rightarrow> [[x]]
            | p # ps \<Rightarrow> (x # p) # ps))"

text \<open>\<open>s.split(c, n)\<close>: at most \<open>n\<close> splits, from the left.\<close>

fun split_max :: "'a \<Rightarrow> nat \<Rightarrow> 'a list \<Rightarrow> 'a list list" where
  "split_max c 0 xs = [xs]"
| "split_max c (Suc n) [] = [[]]"
| "split_max c (Suc n) (x # xs) =
     (if x = c then [] # split_max c n xs
      else (case split_max c (Suc n) xs of
              [] \<Rightarrow> [[x]]
            | p # ps \<Rightarrow> (x # p) # ps))"

text \<open>\<open>c.join(parts)\<close> for a one-character separator.\<close>

fun join_sep :: "'a \<Rightarrow> 'a list list \<Rightarrow> 'a list" where
  "join_sep c [] = []"
| "join_sep c [p] = p"
| "join_sep c (p # q # ps) = p @ c # join_sep c (q # ps)"

definition startswith :: "'a list \<Rightarrow> 'a list \<Rightarrow> bool" where
  "startswith s p = (take (length p) s = p)"

definition endswith :: "'a list \<Rightarrow> 'a list \<Rightarrow> bool" where
  "endswith s p = (length p \<le> length s \<and> drop (length s - length p) s = p)"

text \<open>\<open>p in s\<close> on strings: \<open>p\<close> occurs in \<open>s\<close> as a contiguous substring.\<close>

fun contains :: "'a list \<Rightarrow> 'a list \<Rightarrow> bool" where
  "contains [] p = (p = [])"
| "contains (x # xs) p = (startswith (x # xs) p \<or> contains xs p)"

section \<open>Image Reference Resolver (\<open>src/tools/image_tools.py\<close>)\<close>

record image_reference =
  registry :: string
  repository :: string
  tag :: string

definition default_registry :: string where
  "default_registry = ''registry-1.docker.io''"

text \<open>
  Step 1 of \<open>_parse_image_name\<close>: the registry and the image name that remains. An
  override that is \<open>None\<close> or the empty string is falsy. \<open>parts[0]\<close> raises IndexError on
  an empty list.
\<close>

definition resolve_registry :: "string \<Rightarrow> string option \<Rightarrow> exn + (string \<times> string)" where
  "resolve_registry image_name registry_override =
     (if registry_override \<noteq> None \<and> registry_override \<noteq> Some []
      then (case registry_override of
              Some r \<Rightarrow> Inr (r, image_name)
            | None \<Rightarrow> Inr ([], image_name))
      else (case split_sep CHR ''/'' image_name of
              [] \<Rightarrow> Inl (Exn OtherException ''list index out of range'')
            | p0 # rest \<Rightarrow>
                if CHR ''.'' \<in> set p0 \<and> length (p0 # rest) > 1
                then Inr (p0, join_sep CHR ''/'' rest)
                else if CHR ''.'' \<in> set p0 \<and> length (p0 # rest) = 1 \<and> CHR '':'' \<in> set p0
                then Inr (p0, [])
                else Inr (default_registry, image_name)))"

text \<open>The scheme prefix is removed once.\<close>

definition strip_scheme :: "string \<Rightarrow> string" where
  "strip_scheme reg =
     (if startswith reg ''https://'' then drop (length ''https://'') reg
      else if startswith reg ''http://'' then drop (length ''http://'') reg
      else reg)"

text \<open>
  Step 2: repository and tag. The tuple assignment \<open>repository, tag = ...\<close> raises
  ValueError unless the split has exactly two pieces.
\<close>

definition split_repository_tag :: "string \<Rightarrow> exn + (string \<times> string)" where
  "split_repository_tag image_name =
     (if CHR '':'' \<notin> set image_name then Inr (image_name, ''latest'')
      else (case split_max CHR '':'' 1 image_name of
              [r, t] \<Rightarrow> Inr (r, t)
            | [] \<Rightarrow> Inl (Exn OtherException ''not enough values to unpack'')
            | [_] \<Rightarrow> Inl (Exn OtherException ''not enough values to unpack'')
            | _ \<Rightarrow> Inl (Exn OtherException ''too many values to unpack'')))"

definition parse_image_name :: "string \<Rightarrow> string option \<Rightarrow> exn + image_reference" where
  "parse_image_name image_name registry_override =
     (case resolve_registry image_name registry_override of
        Inl e \<Rightarrow> Inl e
      | Inr (registry0, image_name') \<Rightarrow>
          (let registry1 = strip_scheme registry0 in
           case split_repository_tag image_name' of
             Inl e \<Rightarrow> Inl e
           | Inr (repository0, tag0) \<Rightarrow>
               Inr \<lparr> registry = registry1,
                     repository =
                       (if registry1 = default_registry \<and> CHR ''/'' \<notin> set repository0
                        then ''library/'' @ repository0 else repository0),
                     tag = tag0 \<rparr>))"

definition has_scheme :: "string \<Rightarrow> bool" where
  "has_scheme s = (startswith s ''https://'' \<or> startswith s ''http://'')"

text \<open>An override whose text begins with two scheme prefixes in a row.\<close>

definition stacked_scheme :: "string option \<Rightarrow> bool" where
  "stacked_scheme registry_override =
     (case registry_override of
        None \<Rightarrow> False
      | Some r \<Rightarrow>
          startswith r ''https://https://'' \<or> startswith r ''https://http://'' \<or>
          startswith r ''http://https://'' \<or> startswith r ''http://http://'')"

section \<open>Formatting, bytes and \<open>struct\<close>\<close>

text \<open>\<open>str(n)\<close> and \<open>f"{n}"\<close> for an integer: decimal digits, a minus sign when negative.\<close>

definition digit_char :: "nat \<Rightarrow> char" where
  "digit_char d = ''0123456789'' ! d"

fun str_nat :: "nat \<Rightarrow> string" where
  "str_nat n = (if n < 10 then [digit_char n] else str_nat (n div 10) @ [digit_char (n mod 10)])"

definition str_int :: "int \<Rightarrow> string" where
  "str_int i = (if i < 0 then CHR ''-'' # str_nat (nat (- i)) else str_nat (nat i))"

text \<open>\<open>s.encode()\<close>: the UTF-8 bytes of the string, which is how a string is held here.\<close>

definition encode :: "string \<Rightarrow> byte list" where
  "encode s = map of_char s"

text \<open>\<open>bytes([n])\<close>: one byte, ValueError outside \<open>range(0, 256)\<close>.\<close>

definition bytes_of_int :: "int \<Rightarrow> exn + byte list" where
  "bytes_of_int n =
     (if 0 \<le> n \<and> n < 256 then Inr [word_of_int n]
      else Inl (Exn OtherException ''bytes must be in range(0, 256)''))"

text \<open>
  \<open>struct.pack\<close> with a format of \<open>!\<close> and \<open>H\<close> items: each value as two bytes, high byte
  first; \<open>struct.error\<close> for a value outside 0..65535.
\<close>

fun pack_H :: "int list \<Rightarrow> exn + byte list" where
  "pack_H [] = Inr []"
| "pack_H (v # vs) =
     (if 0 \<le> v \<and> v \<le> 65535
      then (case pack_H vs of
              Inl e \<Rightarrow> Inl e
            | Inr bs \<Rightarrow> Inr (word_of_int (v div 256) # word_of_int (v mod 256) # bs))
      else Inl (Exn OtherException ''H format requires 0 <= number <= 65535''))"

text \<open>
  \<open>struct.unpack('!HHHHHH', b)\<close>: \<open>struct.error\<close> unless \<open>b\<close> has exactly 12 bytes.
\<close>

definition be16 :: "byte \<Rightarrow> byte \<Rightarrow> int" where
  "be16 hi lo = uint hi * 256 + uint lo"

definition unpack_H6 :: "byte list \<Rightarrow> exn + (int \<times> int \<times> int \<times> int \<times> int \<times> int)" where
  "unpack_H6 b =
     (case b of
        [b0, b1, b2, b3, b4, b5, b6, b7, b8, b9, b10, b11] \<Rightarrow>
          Inr (be16 b0 b1, be16 b2 b3, be16 b4 b5, be16 b6 b7, be16 b8 b9, be16 b10 b11)
      | _ \<Rightarrow> Inl (Exn OtherException ''unpack requires a buffer of 12 bytes''))"

section \<open>DNS Codec (\<open>src/tools/common_tools.py\<close>)\<close>

text \<open>The loop over the labels: \<open>qname += bytes([len(part)]) + part\<close>.\<close>

fun qname_loop :: "byte list list \<Rightarrow> byte list \<Rightarrow> exn + byte list" where
  "qname_loop [] qname = Inr qname"
| "qname_loop (part # parts) qname =
     (case bytes_of_int (int (length part)) of
        Inl e \<Rightarrow> Inl e
      | Inr b \<Rightarrow> qname_loop parts (qname @ b @ part))"

text \<open>
  \<open>create_dns_query\<close>. The first argument is the value that \<open>random.randint(0, 65535)\<close>
  returned.
\<close>

definition create_dns_query :: "int \<Rightarrow> string \<Rightarrow> int \<Rightarrow> exn + byte list" where
  "create_dns_query transaction_id domain rtype =
     (let flags = 0x0100; qdcount = 1; ancount = 0; nscount = 0; arcount = 0 in
      case pack_H [transaction_id, flags, qdcount, ancount, nscount, arcount] of
        Inl e \<Rightarrow> Inl e
      | Inr header \<Rightarrow>
          (case qname_loop (split_sep 0x2E (encode domain)) [] of
             Inl e \<Rightarrow> Inl e
           | Inr qname0 \<Rightarrow>
               (let qname = qname0 @ [0x00] in
                case pack_H [rtype, 1] of
                  Inl e \<Rightarrow> Inl e
                | Inr question \<Rightarrow> Inr (header @ qname @ question))))"

text \<open>The claim's description of the question name: length byte, then the label.\<close>

definition spec_qname :: "string \<Rightarrow> byte list" where
  "spec_qname domain =
     concat (map (\<lambda>label. word_of_nat (length label) # encode label) (split_sep CHR ''.'' domain)) @ [0]"

definition record_types :: "string \<Rightarrow> int option" where
  "record_types = map_of [(''A'', 1), (''AAAA'', 28), (''MX'', 15), (''CNAME'', 5)]"

section \<open>The world the probes talk to\<close>

text \<open>
  Every call that leaves the process is answered by the environment: sockets, the
  resolver, the HTTP client, the clock and the random generator. A value \<open>Inl e\<close> (or
  \<open>Some e\<close> for a call without a result) means that the call raised \<open>e\<close>.
\<close>

datatype address_family = AF_INET | AF_INET6 | AF_OTHER

datatype jvalue = JNull | JBool bool | JInt int | JString string | JOther bool string

datatype json_doc = JsonDict "(string \<times> jvalue) list" | JsonNotDict string

record response =
  status_code :: int
  reason :: string
  response_url :: string
  json_result :: "exn + json_doc"
  content :: "byte list"

datatype http_call =
  Request string string "(string \<times> string) list" "(string \<times> jvalue) list option" real bool
| Get string real
| Head string "(string \<times> string) list" real

datatype sock_event =
  SockOpen | SockSettimeout real | SockSendto "byte list" string int | SockRecvfrom nat
| SockConnect string int | SockClose

record world =
  socket_socket :: "exn option"
  random_randint :: int
  sock_sendto :: "byte list \<Rightarrow> string \<Rightarrow> int \<Rightarrow> exn option"
  sock_recvfrom :: "nat \<Rightarrow> exn + byte list"
  sock_connect_ex :: "string \<Rightarrow> int \<Rightarrow> exn + int"
  socket_getaddrinfo :: "string \<Rightarrow> exn + (address_family \<times> string) list"
  requests_call :: "http_call \<Rightarrow> exn + response"
  time_start :: real
  time_end :: real
  now_isoformat :: string

text \<open>\<open>round(x, 2)\<close>, on the reals: the floating-point value is not modelled.\<close>

definition round2 :: "real \<Rightarrow> real" where
  "round2 x = real_of_int (round (x * 100)) / 100"

text \<open>Sockets of a trace that are still open at its end.\<close>

fun open_after :: "nat \<Rightarrow> sock_event list \<Rightarrow> nat" where
  "open_after n [] = n"
| "open_after n (SockOpen # evs) = open_after (Suc n) evs"
| "open_after n (SockClose # evs) = open_after (n - 1) evs"
| "open_after n (_ # evs) = open_after n evs"

definition sockets_left_open :: "sock_event list \<Rightarrow> nat" where
  "sockets_left_open evs = open_after 0 evs"

section \<open>Probe results\<close>

record probe_result =
  success :: bool
  response_time_ms :: "real option"
  timestamp :: string
  error :: "string option"

record dns_result = probe_result +
  dns_domain :: string
  dns_record_type :: string
  records :: "string set"

record port_result = probe_result +
  port_host :: string
  port_port :: int

record http_result = probe_result +
  http_url :: string
  http_status_code :: "int option"
  content_length :: "nat option"

record manifest_result = probe_result +
  manifest_image_name :: string
  manifest_registry :: string
  manifest_status_code :: "int option"
  message :: string

section \<open>DNS Probe and TCP Port Probe (\<open>src/tools/common_tools.py\<close>)\<close>

text \<open>The loop over \<open>addrs\<close> that appends the addresses of the requested family.\<close>

fun collect_records :: "string \<Rightarrow> (address_family \<times> string) list \<Rightarrow> string list \<Rightarrow> string list" where
  "collect_records record_type [] recs = recs"
| "collect_records record_type (addr # addrs) recs =
     (if (record_type = ''A'' \<and> fst addr = AF_INET) \<or> (record_type = ''AAAA'' \<and> fst addr = AF_INET6)
      then collect_records record_type addrs (recs @ [snd addr])
      else collect_records record_type addrs recs)"

text \<open>The inner \<open>try\<close>: only \<open>socket.gaierror\<close> is swallowed.\<close>

definition lookup_records :: "world \<Rightarrow> string \<Rightarrow> string \<Rightarrow> int \<Rightarrow> exn + string list" where
  "lookup_records w domain record_type ancount =
     (if ancount > 0
      then (case socket_getaddrinfo w domain of
              Inl e \<Rightarrow> if exn_kind e = Gaierror then Inr [] else Inl e
            | Inr addrs \<Rightarrow> Inr (collect_records record_type addrs []))
      else Inr [])"

text \<open>What \<open>check_dns\<close> does with the reply, after the socket is closed.\<close>

definition parse_dns_response ::
  "world \<Rightarrow> string \<Rightarrow> string \<Rightarrow> byte list \<Rightarrow> real \<Rightarrow> exn + dns_result" where
  "parse_dns_response w domain record_type reply response_time =
     (if length reply < 12 then Inl (Exn OtherException ''Response too short'')
      else (case unpack_H6 (take 12 reply) of
              Inl e \<Rightarrow> Inl e
            | Inr (_, flags, _, ancount, _, _) \<Rightarrow>
                (let rcode = flags AND 0x000F in
                 if rcode \<noteq> 0
                 then Inl (Exn OtherException (''DNS response code: '' @ str_int rcode))
                 else (case lookup_records w domain record_type ancount of
                         Inl e \<Rightarrow> Inl e
                       | Inr recs \<Rightarrow>
                           Inr \<lparr> success = True,
                                 response_time_ms = Some (round2 response_time),
                                 timestamp = now_isoformat w,
                                 error = None,
                                 dns_domain = domain,
                                 dns_record_type = record_type,
                                 records = set recs \<rparr>))))"

text \<open>The body of the outer \<open>try\<close>, with the socket calls it makes.\<close>

definition dns_try ::
  "world \<Rightarrow> string \<Rightarrow> string \<Rightarrow> int \<Rightarrow> string \<Rightarrow> (exn + dns_result) \<times> sock_event list" where
  "dns_try w domain record_type rtype nameserver =
     (case socket_socket w of
        Some e \<Rightarrow> (Inl e, [])
      | None \<Rightarrow>
          (let evs = [SockOpen, SockSettimeout 3.0] in
           case create_dns_query (random_randint w) domain rtype of
             Inl e \<Rightarrow> (Inl e, evs)
           | Inr query \<Rightarrow>
               (case sock_sendto w query nameserver 53 of
                  Some e \<Rightarrow> (Inl e, evs @ [SockSendto query nameserver 53])
                | None \<Rightarrow>
                    (case sock_recvfrom w 512 of
                       Inl e \<Rightarrow> (Inl e, evs @ [SockSendto query nameserver 53, SockRecvfrom 512])
                     | Inr reply \<Rightarrow>
                         (let response_time = (time_end w - time_start w) * 1000 in
                          (parse_dns_response w domain record_type reply response_time,
                           evs @ [SockSendto query nameserver 53, SockRecvfrom 512,
                                  SockClose]))))))"

definition dns_failure :: "world \<Rightarrow> string \<Rightarrow> string \<Rightarrow> string \<Rightarrow> dns_result" where
  "dns_failure w domain record_type text =
     \<lparr> success = False, response_time_ms = None, timestamp = now_isoformat w,
       error = Some text, dns_domain = domain, dns_record_type = record_type, records = {} \<rparr>"

definition check_dns :: "world \<Rightarrow> string \<Rightarrow> string \<Rightarrow> string \<Rightarrow> dns_result \<times> sock_event list" where
  "check_dns w domain record_type nameserver =
     (case record_types record_type of
        None \<Rightarrow>
          (dns_failure w domain record_type (''Unsupported record type: '' @ record_type), [])
      | Some rtype \<Rightarrow>
          (case dns_try w domain record_type rtype nameserver of
             (Inr res, evs) \<Rightarrow> (res, evs)
           | (Inl e, evs) \<Rightarrow> (dns_failure w domain record_type (exn_text e), evs)))"

definition port_failure :: "world \<Rightarrow> string \<Rightarrow> int \<Rightarrow> exn \<Rightarrow> port_result" where
  "port_failure w host port e =
     \<lparr> success = False, response_time_ms = None, timestamp = now_isoformat w,
       error = Some (exn_text e), port_host = host, port_port = port \<rparr>"

text \<open>\<open>check_port\<close>; \<open>settimeout\<close> raises ValueError for a negative timeout.\<close>

definition check_port :: "world \<Rightarrow> string \<Rightarrow> int \<Rightarrow> real \<Rightarrow> port_result \<times> sock_event list" where
  "check_port w host port timeout =
     (case socket_socket w of
        Some e \<Rightarrow> (port_failure w host port e, [])
      | None \<Rightarrow>
          if timeout < 0
          then (port_failure w host port (Exn OtherException ''Timeout value out of range''),
                [SockOpen])
          else (case sock_connect_ex w host port of
                  Inl e \<Rightarrow>
                    (port_failure w host port e,
                     [SockOpen, SockSettimeout timeout, SockConnect host port])
                | Inr result \<Rightarrow>
                    (\<lparr> success = (result = 0),
                       response_time_ms = Some (round2 ((time_end w - time_start w) * 1000)),
                       timestamp = now_isoformat w,
                       error = (if result = 0 then None
                                else Some (''Port '' @ str_int port @ '' is closed'')),
                       port_host = host, port_port = port \<rparr>,
                     [SockOpen, SockSettimeout timeout, SockConnect host port, SockClose])))"

section \<open>HTTP Probe (\<open>src/tools/common_tools.py\<close>)\<close>

text \<open>\<open>s.upper()\<close> on the ASCII letters; other characters are kept.\<close>

definition upper_char :: "char \<Rightarrow> char" where
  "upper_char c =
     (case map_of (zip ''abcdefghijklmnopqrstuvwxyz'' ''ABCDEFGHIJKLMNOPQRSTUVWXYZ'') c of
        None \<Rightarrow> c
      | Some u \<Rightarrow> u)"

definition upper :: "string \<Rightarrow> string" where
  "upper s = map upper_char s"

definition check_http_response ::
  "world \<Rightarrow> string \<Rightarrow> string \<Rightarrow> (string \<times> string) list option \<Rightarrow>
   (string \<times> jvalue) list option \<Rightarrow> real \<Rightarrow> bool \<Rightarrow> http_result \<times> http_call list" where
  "check_http_response w url method headers data timeout verify_ssl =
     (let call = Request (upper method) url
                   (case headers of None \<Rightarrow> [] | Some h \<Rightarrow> h)
                   (if upper method \<noteq> ''GET'' then data else None)
                   timeout verify_ssl
      in case requests_call w call of
           Inr resp \<Rightarrow>
             (\<lparr> success = True,
                response_time_ms = Some (round2 ((time_end w - time_start w) * 1000)),
                timestamp = now_isoformat w,
                error = None,
                http_url = url,
                http_status_code = Some (status_code resp),
                content_length = Some (length (content resp)) \<rparr>, [call])
         | Inl e \<Rightarrow>
             (\<lparr> success = False,
                response_time_ms = None,
                timestamp = now_isoformat w,
                error = Some (exn_text e),
                http_url = url,
                http_status_code = None,
                content_length = None \<rparr>, [call]))"

section \<open>Registry Manifest Probe (\<open>src/tools/image_tools.py\<close>)\<close>

text \<open>
  \<open>Response.raise_for_status()\<close> of the HTTP client: an HTTPError, which is a
  RequestException, for a status from 400 to 599 and nothing otherwise.
\<close>

definition http_error_text :: "response \<Rightarrow> string" where
  "http_error_text r =
     str_int (status_code r)
     @ (if status_code r < 500 then '' Client Error: '' else '' Server Error: '')
     @ reason r @ '' for url: '' @ response_url r"

definition raise_for_status :: "response \<Rightarrow> exn option" where
  "raise_for_status r =
     (if 400 \<le> status_code r \<and> status_code r < 600
      then Some (Exn RequestException (http_error_text r))
      else None)"

text \<open>Truth value and \<open>str()\<close> of a value read from a JSON document.\<close>

fun py_truthy :: "jvalue \<Rightarrow> bool" where
  "py_truthy JNull = False"
| "py_truthy (JBool b) = b"
| "py_truthy (JInt i) = (i \<noteq> 0)"
| "py_truthy (JString s) = (s \<noteq> [])"
| "py_truthy (JOther b s) = b"

fun py_str :: "jvalue \<Rightarrow> string" where
  "py_str JNull = ''None''"
| "py_str (JBool b) = (if b then ''True'' else ''False'')"
| "py_str (JInt i) = str_int i"
| "py_str (JString s) = s"
| "py_str (JOther b s) = s"

text \<open>\<open>doc.get(key)\<close>: \<open>None\<close> for a missing key, AttributeError when \<open>doc\<close> is no dict.\<close>

fun dict_get :: "json_doc \<Rightarrow> string \<Rightarrow> exn + jvalue" where
  "dict_get (JsonDict kvs) k = Inr (case map_of kvs k of None \<Rightarrow> JNull | Some v \<Rightarrow> v)"
| "dict_get (JsonNotDict ty) k =
     Inl (Exn OtherException (ty @ '' object has no attribute get''))"

definition is_docker_hub_or_mirror :: "string \<Rightarrow> bool" where
  "is_docker_hub_or_mirror registry_host =
     (registry_host = ''registry-1.docker.io'' \<or>
      endswith registry_host ''docker.io'' \<or>
      contains registry_host ''daocloud.io'')"

definition token_url :: "string \<Rightarrow> string" where
  "token_url repo =
     ''https://auth.docker.io/token?service=registry.docker.io&scope=repository:'' @ repo
     @ '':pull''"

definition manifest_url :: "string \<Rightarrow> string \<Rightarrow> string \<Rightarrow> string" where
  "manifest_url registry_host repo tag0 =
     ''https://'' @ registry_host @ ''/v2/'' @ repo @ ''/manifests/'' @ tag0"

definition accept_value :: string where
  "accept_value = ''application/vnd.docker.distribution.manifest.v2+json, '' @
     ''application/vnd.docker.distribution.manifest.list.v2+json, application/json''"

text \<open>Stage 1 of the \<open>try\<close>: the token, \<open>None\<close> when no token request is made.\<close>

definition fetch_token :: "world \<Rightarrow> string \<Rightarrow> string \<Rightarrow> real \<Rightarrow> (exn + jvalue) \<times> http_call list" where
  "fetch_token w registry_host repo timeout =
     (if is_docker_hub_or_mirror registry_host
      then (let call = Get (token_url repo) timeout in
            ((case requests_call w call of
               Inl e \<Rightarrow> Inl e
             | Inr token_response \<Rightarrow>
                 (case raise_for_status token_response of
                    Some e \<Rightarrow> Inl e
                  | None \<Rightarrow>
                      (case json_result token_response of
                         Inl e \<Rightarrow> Inl e
                       | Inr doc \<Rightarrow> dict_get doc ''token''))), [call]))
      else (Inr JNull, []))"

definition manifest_headers :: "jvalue \<Rightarrow> (string \<times> string) list" where
  "manifest_headers token =
     (if py_truthy token
      then [(''Accept'', accept_value), (''Authorization'', ''Bearer '' @ py_str token)]
      else [(''Accept'', accept_value)])"

definition status_text :: "string \<Rightarrow> int \<Rightarrow> string" where
  "status_text what code = what @ '' (Status: '' @ str_int code @ '')''"

text \<open>
  Stages 2 and 3: the HEAD request and its classification. The result \<open>Inr None\<close> is
  the end of the function body reached without a \<open>return\<close>.
\<close>

definition manifest_try ::
  "world \<Rightarrow> string \<Rightarrow> string \<Rightarrow> string \<Rightarrow> string \<Rightarrow> real \<Rightarrow>
   (exn + manifest_result option) \<times> http_call list" where
  "manifest_try w image_name registry_host repo tag0 timeout =
     (case fetch_token w registry_host repo timeout of
        (Inl e, calls) \<Rightarrow> (Inl e, calls)
      | (Inr token, calls) \<Rightarrow>
          (let call = Head (manifest_url registry_host repo tag0) (manifest_headers token) timeout;
               response_time = (time_end w - time_start w) * 1000
           in ((case requests_call w call of
                 Inl e \<Rightarrow> Inl e
               | Inr manifest_response \<Rightarrow>
                   if status_code manifest_response = 200
                   then Inr (Some
                     \<lparr> success = True,
                       response_time_ms = Some (round2 response_time),
                       timestamp = now_isoformat w,
                       error = None,
                       manifest_image_name = image_name,
                       manifest_registry = registry_host,
                       manifest_status_code = Some (status_code manifest_response),
                       message = status_text ''Image manifest found''
                                   (status_code manifest_response) \<rparr>)
                   else if status_code manifest_response = 404
                   then Inr (Some
                     \<lparr> success = False,
                       response_time_ms = Some (round2 response_time),
                       timestamp = now_isoformat w,
                       error = Some (status_text ''Image manifest not found''
                                       (status_code manifest_response)),
                       manifest_image_name = image_name,
                       manifest_registry = registry_host,
                       manifest_status_code = Some (status_code manifest_response),
                       message = status_text ''Image manifest not found''
                                   (status_code manifest_response) \<rparr>)
                   else (case raise_for_status manifest_response of
                           Some e \<Rightarrow> Inl e
                         | None \<Rightarrow> Inr None)), calls @ [call])))"

text \<open>The two handlers: a RequestException, then any other exception.\<close>

definition manifest_failure :: "world \<Rightarrow> string \<Rightarrow> string \<Rightarrow> exn \<Rightarrow> manifest_result" where
  "manifest_failure w image_name registry_host e =
     \<lparr> success = False,
       response_time_ms = Some (round2 ((time_end w - time_start w) * 1000)),
       timestamp = now_isoformat w,
       error = Some ((if exn_kind e = RequestException then ''HTTP Request Error: ''
                      else ''An unexpected error occurred: '') @ exn_text e),
       manifest_image_name = image_name,
       manifest_registry = registry_host,
       manifest_status_code = None,
       message = exn_text e \<rparr>"

text \<open>
  \<open>_check_image_manifest_sync\<close>. The reference is resolved before the \<open>try\<close>, so an
  exception of the resolver would leave the function.
\<close>

definition check_image_manifest_sync ::
  "world \<Rightarrow> string \<Rightarrow> string option \<Rightarrow> real \<Rightarrow> (exn + manifest_result option) \<times> http_call list" where
  "check_image_manifest_sync w image_name registry_override timeout =
     (case parse_image_name image_name registry_override of
        Inl e \<Rightarrow> (Inl e, [])
      | Inr parsed \<Rightarrow>
          (case manifest_try w image_name (registry parsed) (repository parsed) (tag parsed)
                  timeout of
             (Inr res, calls) \<Rightarrow> (Inr res, calls)
           | (Inl e, calls) \<Rightarrow>
               (Inr (Some (manifest_failure w image_name (registry parsed) e)), calls)))"

section \<open>Reading a reply header, and worlds to run the probes in\<close>

text \<open>The fields of a reply of at least 12 bytes that the DNS Probe looks at.\<close>

definition reply_flags :: "byte list \<Rightarrow> int" where
  "reply_flags reply = be16 (reply ! 2) (reply ! 3)"

definition reply_rcode :: "byte list \<Rightarrow> int" where
  "reply_rcode reply = reply_flags reply AND 0x000F"

definition reply_ancount :: "byte list \<Rightarrow> int" where
  "reply_ancount reply = be16 (reply ! 6) (reply ! 7)"

text \<open>
  A world in which a socket can be opened and data sent, but nothing answers: the
  receive times out, a connect is refused, names do not resolve and HTTP requests fail.
\<close>

definition quiet_world :: world where
  "quiet_world =
     \<lparr> socket_socket = None,
       random_randint = 0x1234,
       sock_sendto = (\<lambda>query nameserver port. None),
       sock_recvfrom = (\<lambda>bufsize. Inl (Exn OtherException ''timed out'')),
       sock_connect_ex = (\<lambda>host port. Inr 111),
       socket_getaddrinfo = (\<lambda>host. Inl (Exn Gaierror ''[Errno -2] Name or service not known'')),
       requests_call = (\<lambda>call. Inl (Exn RequestException ''Connection refused'')),
       time_start = 0,
       time_end = 0,
       now_isoformat = ''2025-01-01T00:00:00'' \<rparr>"

text \<open>The nameserver answers with the given datagram.\<close>

definition world_replying :: "byte list \<Rightarrow> world" where
  "world_replying reply = quiet_world \<lparr> sock_recvfrom := (\<lambda>bufsize. Inr reply) \<rparr>"

text \<open>The nameserver answers, and \<open>getaddrinfo\<close> fails with an error that is no \<open>gaierror\<close>.\<close>

definition world_resolver_fault :: "byte list \<Rightarrow> world" where
  "world_resolver_fault reply =
     (world_replying reply) \<lparr> socket_getaddrinfo :=
       (\<lambda>host. Inl (Exn OtherException
          ''encoding with idna codec failed (UnicodeError: label empty or too long)'')) \<rparr>"

text \<open>The host name of a TCP probe does not resolve: \<open>connect_ex\<close> raises.\<close>

definition world_unresolvable :: world where
  "world_unresolvable =
     quiet_world \<lparr> sock_connect_ex :=
       (\<lambda>host port. Inl (Exn Gaierror ''[Errno -2] Name or service not known'')) \<rparr>"

text \<open>A TCP connect succeeds.\<close>

definition world_listening :: world where
  "world_listening = quiet_world \<lparr> sock_connect_ex := (\<lambda>host port. Inr 0) \<rparr>"

text \<open>An HTTP response with the given status, reason, URL and parsed JSON body.\<close>

definition http_response :: "int \<Rightarrow> string \<Rightarrow> string \<Rightarrow> json_doc \<Rightarrow> response" where
  "http_response code phrase u doc =
     \<lparr> status_code = code, reason = phrase, response_url = u, json_result = Inr doc,
       content = encode ''body'' \<rparr>"

text \<open>Every HTTP request is answered with the given response.\<close>

definition world_http :: "response \<Rightarrow> world" where
  "world_http resp = quiet_world \<lparr> requests_call := (\<lambda>call. Inr resp) \<rparr>"

text \<open>
  A registry: GET requests (the token endpoint) and HEAD requests (the manifest) have
  the given outcomes.
\<close>

definition registry_world :: "exn + response \<Rightarrow> exn + response \<Rightarrow> world" where
  "registry_world token_outcome manifest_outcome =
     quiet_world \<lparr> requests_call :=
       (\<lambda>call. case call of
                  Get u t \<Rightarrow> token_outcome
                | Head u h t \<Rightarrow> manifest_outcome
                | Request m u h d t v \<Rightarrow> Inl (Exn RequestException ''Connection refused'')) \<rparr>"

definition token_granted :: response where
  "token_granted =
     http_response 200 ''OK'' ''https://auth.docker.io/token''
       (JsonDict [(''token'', JString ''abc''), (''expires_in'', JInt 300)])"

section \<open>Facts about the built-ins\<close>

lemma split_sep_nonempty: "split_sep c xs \<noteq> []"
  by (induction xs) (auto split: list.splits)

lemma split_sep_pieces: "p \<in> set (split_sep c xs) \<Longrightarrow> c \<notin> set p"
proof (induction xs arbitrary: p)
  case Nil
  then show ?case by simp
next
  case (Cons x xs)
  show ?case
  proof (cases "x = c")
    case True
    with Cons show ?thesis by auto
  next
    case False
    obtain q qs where q: "split_sep c xs = q # qs"
      using split_sep_nonempty [of c xs] by (cases "split_sep c xs") auto
    with False Cons.prems have "p = x # q \<or> p \<in> set qs" by auto
    then show ?thesis
    proof
      assume "p = x # q"
      moreover have "c \<notin> set q" using Cons.IH [of q] q by simp
      ultimately show ?thesis using False by auto
    next
      assume "p \<in> set qs"
      then show ?thesis using Cons.IH [of p] q by simp
    qed
  qed
qed

lemma split_max_one: "c \<in> set xs \<Longrightarrow> \<exists>r t. split_max c (Suc 0) xs = [r, t]"
proof (induction xs)
  case Nil
  then show ?case by simp
next
  case (Cons x xs)
  show ?case
  proof (cases "x = c")
    case True
    then show ?thesis by simp
  next
    case False
    with Cons.prems have "c \<in> set xs" by simp
    then obtain r t where "split_max c (Suc 0) xs = [r, t]" using Cons.IH by blast
    with False show ?thesis by simp
  qed
qed

lemma split_repository_tag_total: "\<exists>r t. split_repository_tag s = Inr (r, t)"
proof (cases "CHR '':'' \<in> set s")
  case True
  from split_max_one [OF True]
  obtain r t where "split_max CHR '':'' (Suc 0) s = [r, t]"
    by (elim exE)
  with True show ?thesis by (simp add: split_repository_tag_def)
next
  case False
  then show ?thesis by (simp add: split_repository_tag_def)
qed

lemma resolve_registry_total: "\<exists>r n. resolve_registry s ov = Inr (r, n)"
proof -
  obtain p ps where "split_sep CHR ''/'' s = p # ps"
    using split_sep_nonempty [of "CHR ''/''" s] by (cases "split_sep CHR ''/'' s") auto
  then show ?thesis
    by (cases ov) (simp_all add: resolve_registry_def)
qed

lemma startswith_iff: "startswith s p \<longleftrightarrow> (\<exists>r. s = p @ r)"
proof
  assume "startswith s p"
  then have "s = p @ drop (length p) s"
    unfolding startswith_def by (metis append_take_drop_id)
  then show "\<exists>r. s = p @ r" ..
next
  assume "\<exists>r. s = p @ r"
  then show "startswith s p" by (auto simp: startswith_def)
qed

lemma startswith_mem: "startswith s p \<Longrightarrow> c \<in> set p \<Longrightarrow> c \<in> set s"
  unfolding startswith_def by (metis in_set_takeD)

lemma has_scheme_slash: "has_scheme s \<Longrightarrow> CHR ''/'' \<in> set s"
  unfolding has_scheme_def by (auto dest: startswith_mem [where c = "CHR ''/''"])

lemma strip_scheme_noslash: "CHR ''/'' \<notin> set s \<Longrightarrow> strip_scheme s = s"
  using has_scheme_slash [of s] by (auto simp: strip_scheme_def has_scheme_def)

lemma resolve_registry_parsed:
  assumes "registry_override = None \<or> registry_override = Some []"
    and "resolve_registry image_name registry_override = Inr (r, n)"
  shows "CHR ''/'' \<notin> set r"
proof -
  obtain p ps where sp: "split_sep CHR ''/'' image_name = p # ps"
    using split_sep_nonempty [of "CHR ''/''" image_name]
    by (cases "split_sep CHR ''/'' image_name") auto
  have "p \<in> set (split_sep CHR ''/'' image_name)" using sp by simp
  then have p: "CHR ''/'' \<notin> set p" by (rule split_sep_pieces)
  have d: "CHR ''/'' \<notin> set default_registry" by (simp add: default_registry_def)
  from assms sp have "r = p \<or> r = default_registry"
    by (auto simp: resolve_registry_def split: if_splits)
  with p d show ?thesis by auto
qed

lemmas parse_image_name_defs =
  parse_image_name_def resolve_registry_def strip_scheme_def split_repository_tag_def
  default_registry_def startswith_def

section \<open>Image Reference Resolver: the claims\<close>

text \<open>
  Claim C1. With no registry override the resolver maps \<open>hello-world\<close> to
  registry-1.docker.io, library/hello-world, latest and \<open>myregistry.com/myimage:v2\<close> to
  myregistry.com, myimage, v2, as the claim says. For \<open>nginx:1.25\<close> the claim expects
  registry-1.docker.io, library/nginx, 1.25; the source takes the branch meant for a bare
  \<open>host:port\<close> (one segment with a dot and a colon) and returns the whole string as the
  registry, an empty repository and the tag latest.
\<close>

theorem parse_image_name_examples:
  "parse_image_name ''hello-world'' None =
     Inr \<lparr> registry = ''registry-1.docker.io'', repository = ''library/hello-world'',
           tag = ''latest'' \<rparr> \<and>
   parse_image_name ''myregistry.com/myimage:v2'' None =
     Inr \<lparr> registry = ''myregistry.com'', repository = ''myimage'', tag = ''v2'' \<rparr> \<and>
   parse_image_name ''nginx:1.25'' None =
     Inr \<lparr> registry = ''nginx:1.25'', repository = '''', tag = ''latest'' \<rparr>"
  by (simp add: parse_image_name_defs)

text \<open>
  Claim C7, as stated: for every image name and every override, the registry of the
  result has no leading \<open>http://\<close> or \<open>https://\<close>. It fails for an override that carries
  two scheme prefixes, since the prefix is removed once.
\<close>

theorem registry_scheme_counterexample:
  "parse_image_name ''nginx'' (Some ''https://https://example.com'') =
     Inr \<lparr> registry = ''https://example.com'', repository = ''nginx'', tag = ''latest'' \<rparr> \<and>
   has_scheme ''https://example.com''"
  by (simp add: parse_image_name_defs has_scheme_def)

lemma startswith_append:
  "startswith s (a @ b) \<longleftrightarrow> startswith s a \<and> startswith (drop (length a) s) b"
proof
  assume "startswith s (a @ b)"
  then obtain r where "s = (a @ b) @ r" unfolding startswith_iff ..
  then show "startswith s a \<and> startswith (drop (length a) s) b"
    by (simp add: startswith_def)
next
  assume h: "startswith s a \<and> startswith (drop (length a) s) b"
  then obtain r where r: "s = a @ r" unfolding startswith_iff by blast
  with h obtain t where "r = b @ t" unfolding startswith_iff by auto
  with r have "s = (a @ b) @ t" by simp
  then show "startswith s (a @ b)" unfolding startswith_iff ..
qed

lemma https_not_http: "startswith s ''https://'' \<Longrightarrow> \<not> startswith s ''http://''"
  unfolding startswith_iff by auto

lemma stacked_scheme_strip:
  "stacked_scheme (Some ov) \<longleftrightarrow> has_scheme (strip_scheme ov)"
proof (cases "startswith ov ''https://''")
  case True
  have "startswith ov ''https://https://'' \<longleftrightarrow> startswith (drop 8 ov) ''https://''"
    using startswith_append [of ov "''https://''" "''https://''"] True
    by (simp add: eval_nat_numeral)
  moreover have "startswith ov ''https://http://'' \<longleftrightarrow> startswith (drop 8 ov) ''http://''"
    using startswith_append [of ov "''https://''" "''http://''"] True
    by (simp add: eval_nat_numeral)
  moreover have "\<not> startswith ov ''http://https://''" "\<not> startswith ov ''http://http://''"
    using startswith_append [of ov "''http://''" "''https://''"]
      startswith_append [of ov "''http://''" "''http://''"] https_not_http [OF True]
    by simp_all
  ultimately show ?thesis
    using True by (simp add: stacked_scheme_def has_scheme_def strip_scheme_def eval_nat_numeral)
next
  case False
  note nohttps = this
  have n1: "\<not> startswith ov ''https://https://''" "\<not> startswith ov ''https://http://''"
    using startswith_append [of ov "''https://''" "''https://''"]
      startswith_append [of ov "''https://''" "''http://''"] False
    by simp_all
  show ?thesis
  proof (cases "startswith ov ''http://''")
    case True
    have "startswith ov ''http://https://'' \<longleftrightarrow> startswith (drop 7 ov) ''https://''"
      using startswith_append [of ov "''http://''" "''https://''"] True
      by (simp add: eval_nat_numeral)
    moreover have "startswith ov ''http://http://'' \<longleftrightarrow> startswith (drop 7 ov) ''http://''"
      using startswith_append [of ov "''http://''" "''http://''"] True
      by (simp add: eval_nat_numeral)
    ultimately show ?thesis
      using True nohttps n1
      by (simp add: stacked_scheme_def has_scheme_def strip_scheme_def eval_nat_numeral)
  next
    case False
    have "\<not> startswith ov ''http://https://''" "\<not> startswith ov ''http://http://''"
      using startswith_append [of ov "''http://''" "''https://''"]
        startswith_append [of ov "''http://''" "''http://''"] False
      by simp_all
    then show ?thesis
      using False nohttps n1 by (simp add: stacked_scheme_def has_scheme_def strip_scheme_def)
  qed
qed

text \<open>
  Claim C7, amended: the registry of the result has a leading \<open>http://\<close> or \<open>https://\<close>
  exactly when the text of the override begins with two scheme prefixes in a row. With
  no override, or with an override that carries at most one scheme prefix, the registry
  has none.
\<close>

theorem registry_without_scheme:
  assumes "parse_image_name image_name registry_override = Inr ref"
  shows "has_scheme (registry ref) \<longleftrightarrow> stacked_scheme registry_override"
proof -
  obtain r n where 1: "resolve_registry image_name registry_override = Inr (r, n)"
    using resolve_registry_total by blast
  obtain p t where 2: "split_repository_tag n = Inr (p, t)"
    using split_repository_tag_total by blast
  from assms have reg: "registry ref = strip_scheme r"
    by (auto simp: parse_image_name_def 1 2 Let_def)
  show ?thesis
  proof (cases "registry_override = None \<or> registry_override = Some []")
    case True
    then have "CHR ''/'' \<notin> set r" using 1 by (rule resolve_registry_parsed)
    then have "\<not> has_scheme (registry ref)"
      using reg has_scheme_slash [of r] by (auto simp: strip_scheme_noslash)
    moreover have "\<not> stacked_scheme registry_override"
      using True by (auto simp: stacked_scheme_def startswith_def)
    ultimately show ?thesis by simp
  next
    case False
    then obtain ov where ov: "registry_override = Some ov" by (cases registry_override) auto
    with False 1 have "r = ov" by (auto simp: resolve_registry_def)
    with ov reg show ?thesis by (simp add: stacked_scheme_strip)
  qed
qed

text \<open>An override with one scheme prefix: the registry is the bare host.\<close>

theorem registry_without_scheme_witness:
  "parse_image_name ''hello-world'' (Some ''https://myregistry.com'') =
     Inr \<lparr> registry = ''myregistry.com'', repository = ''hello-world'', tag = ''latest'' \<rparr> \<and>
   \<not> stacked_scheme (Some ''https://myregistry.com'') \<and>
   \<not> has_scheme ''myregistry.com''"
proof -
  have h1: "parse_image_name ''hello-world'' (Some ''https://myregistry.com'') =
     Inr \<lparr> registry = ''myregistry.com'', repository = ''hello-world'', tag = ''latest'' \<rparr>"
    by (simp add: parse_image_name_defs)
  have h2: "\<not> stacked_scheme (Some ''https://myregistry.com'')"
    by (simp add: stacked_scheme_def startswith_def)
  from registry_without_scheme [OF h1] h1 h2 show ?thesis by simp
qed

text \<open>
  Claim C8. The resolver returns a reference for every image name and every override:
  neither \<open>parts[0]\<close> nor the unpacking of \<open>split(':', 1)\<close> can raise. It is a function
  of its two arguments alone, so equal inputs give equal outputs and nothing of the
  world is read or written.
\<close>

theorem parse_image_name_total:
  "\<exists>ref. parse_image_name image_name registry_override = Inr ref"
proof -
  obtain r n where 1: "resolve_registry image_name registry_override = Inr (r, n)"
    using resolve_registry_total by blast
  obtain p t where 2: "split_repository_tag n = Inr (p, t)"
    using split_repository_tag_total by blast
  show ?thesis by (simp add: parse_image_name_def 1 2 Let_def)
qed

section \<open>DNS Codec: the claims\<close>

lemma unat_of_char: "unat (of_char c :: byte) = (of_char c :: nat)"
proof -
  have "(of_char c :: nat) = of_char c mod 256" by simp
  also have "\<dots> < 256" by (rule mod_less_divisor) simp
  finally have lt: "(of_char c :: nat) < 2 ^ LENGTH(8)" by simp
  have "(word_of_nat (of_char c) :: byte) = of_char c" by (rule of_nat_of_char)
  from of_nat_inverse [OF this lt] show ?thesis .
qed

lemma of_char_byte_inj: "inj (of_char :: char \<Rightarrow> byte)"
proof (rule injI)
  fix c d :: char
  assume "(of_char c :: byte) = of_char d"
  then have "unat (of_char c :: byte) = unat (of_char d :: byte)" by simp
  then have "(of_char c :: nat) = of_char d" by (simp only: unat_of_char)
  then show "c = d" by simp
qed

lemma split_sep_map:
  assumes "inj f"
  shows "split_sep (f c) (map f xs) = map (map f) (split_sep c xs)"
proof (induction xs)
  case Nil
  then show ?case by simp
next
  case (Cons x xs)
  have eq: "f x = f c \<longleftrightarrow> x = c" using assms by (simp add: inj_eq)
  obtain p ps where sp: "split_sep c xs = p # ps"
    using split_sep_nonempty [of c xs] by (cases "split_sep c xs") auto
  show ?case using Cons.IH sp by (simp add: eq)
qed

lemma split_encode:
  "split_sep 0x2E (encode s) = map encode (split_sep CHR ''.'' s)"
proof -
  have dot: "(0x2E :: byte) = of_char CHR ''.''" by simp
  have "split_sep (of_char CHR ''.'' :: byte) (map of_char s) =
        map (map of_char) (split_sep CHR ''.'' s)"
    by (rule split_sep_map [OF of_char_byte_inj])
  then show ?thesis
    unfolding dot encode_def by (simp add: comp_def)
qed

lemma qname_loop_ok:
  "\<forall>p \<in> set parts. length p \<le> 255 \<Longrightarrow>
   qname_loop parts acc = Inr (acc @ concat (map (\<lambda>p. word_of_nat (length p) # p) parts))"
proof (induction parts arbitrary: acc)
  case Nil
  then show ?case by simp
next
  case (Cons p ps)
  then have "length p \<le> 255" by simp
  then have "bytes_of_int (int (length p)) = Inr [word_of_nat (length p)]"
    by (simp add: bytes_of_int_def)
  with Cons show ?case by simp
qed

lemma pack_header:
  "0 \<le> t \<Longrightarrow> t \<le> 65535 \<Longrightarrow>
   pack_H [t, 0x0100, 1, 0, 0, 0] =
     Inr [word_of_int (t div 256), word_of_int (t mod 256), 1, 0, 0, 1, 0, 0, 0, 0, 0, 0]"
  by simp

lemma pack_question:
  "record_types record_type = Some rtype \<Longrightarrow> pack_H [rtype, 1] = Inr [0, word_of_int rtype, 0, 1]"
  by (auto simp: record_types_def split: if_splits)


lemma spec_qname_encode:
  "concat (map (\<lambda>p. word_of_nat (length p) # p) (map encode labels)) =
   concat (map (\<lambda>label. word_of_nat (length label) # encode label) labels)"
  by (induction labels) (simp_all add: encode_def)

text \<open>
  Claim C2, amended: when the transaction id is the value of \<open>random.randint(0, 65535)\<close>,
  the record type is one of the supported ones and every label of the domain has at
  most 255 bytes, \<open>create_dns_query\<close> returns the 12-byte header (id, flags 0x0100,
  question count 1, the other counts 0, each as two bytes, high byte first), then for
  each label of the domain its length byte and its bytes, a zero byte, the record-type
  code and the class 1.
\<close>

theorem create_dns_query_datagram:
  assumes "0 \<le> transaction_id" and "transaction_id \<le> 65535"
    and "record_types record_type = Some rtype"
    and "\<forall>label \<in> set (split_sep CHR ''.'' domain). length label \<le> 255"
  shows "create_dns_query transaction_id domain rtype =
     Inr ([word_of_int (transaction_id div 256), word_of_int (transaction_id mod 256),
           0x01, 0x00, 0x00, 0x01, 0x00, 0x00, 0x00, 0x00, 0x00, 0x00]
          @ spec_qname domain
          @ [0x00, word_of_int rtype, 0x00, 0x01])"
proof -
  have header: "pack_H [transaction_id, 0x0100, 1, 0, 0, 0] =
     Inr [word_of_int (transaction_id div 256), word_of_int (transaction_id mod 256),
          1, 0, 0, 1, 0, 0, 0, 0, 0, 0]"
    using assms(1,2) by (rule pack_header)
  have question: "pack_H [rtype, 1] = Inr [0, word_of_int rtype, 0, 1]"
    using assms(3) by (rule pack_question)
  have "\<forall>p \<in> set (map encode (split_sep CHR ''.'' domain)). length p \<le> 255"
    using assms(4) by (simp add: encode_def)
  then have "qname_loop (split_sep 0x2E (encode domain)) [] =
     Inr ([] @ concat (map (\<lambda>p. word_of_nat (length p) # p)
                         (map encode (split_sep CHR ''.'' domain))))"
    unfolding split_encode by (rule qname_loop_ok)
  then have qname: "qname_loop (split_sep 0x2E (encode domain)) [] =
     Inr (concat (map (\<lambda>label. word_of_nat (length label) # encode label)
                    (split_sep CHR ''.'' domain)))"
    by (simp only: spec_qname_encode append_Nil)
  show ?thesis
    unfolding create_dns_query_def Let_def header question qname spec_qname_def
    by simp
qed

text \<open>The datagram for \<open>example.com\<close> and record type A (code 1), from the theorem.\<close>

theorem create_dns_query_datagram_witness:
  "create_dns_query 0x1234 ''example.com'' 1 =
     Inr ([0x12, 0x34, 0x01, 0x00, 0x00, 0x01, 0x00, 0x00, 0x00, 0x00, 0x00, 0x00]
          @ [7] @ encode ''example'' @ [3] @ encode ''com'' @ [0]
          @ [0x00, 0x01, 0x00, 0x01])"
proof -
  have h3: "record_types ''A'' = Some 1" by (simp add: record_types_def)
  have h4: "\<forall>label \<in> set (split_sep CHR ''.'' ''example.com''). length label \<le> 255"
    by simp
  have "create_dns_query 0x1234 ''example.com'' 1 =
     Inr ([word_of_int (0x1234 div 256), word_of_int (0x1234 mod 256),
           0x01, 0x00, 0x00, 0x01, 0x00, 0x00, 0x00, 0x00, 0x00, 0x00]
          @ spec_qname ''example.com''
          @ [0x00, word_of_int 1, 0x00, 0x01])"
    by (rule create_dns_query_datagram [OF _ _ h3 h4]) simp_all
  then show ?thesis by (simp add: spec_qname_def encode_def)
qed

lemma split_sep_absent: "c \<notin> set xs \<Longrightarrow> split_sep c xs = [xs]"
  by (induction xs) auto

text \<open>
  Claim C2, as stated, is about every domain string. For a label of 256 bytes
  \<open>bytes([len(part)])\<close> raises ValueError and no datagram is returned.
\<close>

theorem create_dns_query_long_label:
  "create_dns_query 0x1234 (replicate 256 CHR ''a'') 1 =
     Inl (Exn OtherException ''bytes must be in range(0, 256)'')"
proof -
  have "(0x2E :: byte) \<notin> set (encode (replicate 256 CHR ''a''))"
    by (simp add: encode_def)
  then have "split_sep 0x2E (encode (replicate 256 CHR ''a'')) = [encode (replicate 256 CHR ''a'')]"
    by (rule split_sep_absent)
  then show ?thesis
    by (simp add: create_dns_query_def bytes_of_int_def encode_def)
qed

section \<open>DNS Probe and TCP Port Probe: the claims\<close>

lemma list12:
  assumes "length xs = 12"
  shows "xs = [xs ! 0, xs ! 1, xs ! 2, xs ! 3, xs ! 4, xs ! 5, xs ! 6, xs ! 7, xs ! 8, xs ! 9, xs ! 10, xs ! 11]"
proof -
  have "xs = map (\<lambda>i. xs ! i) [0..<length xs]" by (simp add: map_nth)
  also have "[0..<length xs] = [0, 1, 2, 3, 4, 5, 6, 7, 8, 9, 10, 11]"
    unfolding assms by (simp add: upt_rec)
  finally show ?thesis by simp
qed

lemma unpack_header:
  assumes "12 \<le> length reply"
  shows "unpack_H6 (take 12 reply) =
     Inr (be16 (reply ! 0) (reply ! 1), reply_flags reply, be16 (reply ! 4) (reply ! 5),
          reply_ancount reply, be16 (reply ! 8) (reply ! 9), be16 (reply ! 10) (reply ! 11))"
proof -
  have len: "length (take 12 reply) = 12" using assms by simp
  have "take 12 reply = [reply ! 0, reply ! 1, reply ! 2, reply ! 3, reply ! 4, reply ! 5,
      reply ! 6, reply ! 7, reply ! 8, reply ! 9, reply ! 10, reply ! 11]"
    using list12 [OF len] by simp
  then show ?thesis by (simp add: unpack_H6_def reply_flags_def reply_ancount_def)
qed

lemma parse_short: "length reply < 12 \<Longrightarrow>
  parse_dns_response w domain record_type reply t = Inl (Exn OtherException ''Response too short'')"
  by (simp add: parse_dns_response_def)

lemma parse_rcode: "12 \<le> length reply \<Longrightarrow> reply_rcode reply \<noteq> 0 \<Longrightarrow>
  parse_dns_response w domain record_type reply t =
    Inl (Exn OtherException (''DNS response code: '' @ str_int (reply_rcode reply)))"
  by (simp add: parse_dns_response_def unpack_header reply_rcode_def Let_def)

lemma parse_ok: "12 \<le> length reply \<Longrightarrow> reply_rcode reply = 0 \<Longrightarrow>
  parse_dns_response w domain record_type reply t =
    (case lookup_records w domain record_type (reply_ancount reply) of
       Inl e \<Rightarrow> Inl e
     | Inr recs \<Rightarrow>
         Inr \<lparr> success = True, response_time_ms = Some (round2 t), timestamp = now_isoformat w,
               error = None, dns_domain = domain, dns_record_type = record_type,
               records = set recs \<rparr>)"
  by (simp add: parse_dns_response_def unpack_header reply_rcode_def Let_def)

lemma dns_try_reply:
  assumes "socket_socket w = None"
    and "create_dns_query (random_randint w) domain rtype = Inr query"
    and "sock_sendto w query nameserver 53 = None"
    and "sock_recvfrom w 512 = Inr reply"
  shows "dns_try w domain record_type rtype nameserver =
     (parse_dns_response w domain record_type reply ((time_end w - time_start w) * 1000),
      [SockOpen, SockSettimeout 3.0, SockSendto query nameserver 53, SockRecvfrom 512, SockClose])"
  using assms by (simp add: dns_try_def Let_def)

text \<open>
  Claim C5, amended: when the exchange with the nameserver delivers a reply that is
  shorter than 12 bytes or whose response code (flags AND 0x000F) is not zero,
  \<open>check_dns\<close> returns a failure with the specific error text (the short-response
  message, or the message with the numeric code), no records, and \<open>response_time_ms\<close>
  null: the time measured before parsing is dropped by the exception handler.
\<close>

theorem check_dns_bad_reply:
  assumes "record_types record_type = Some rtype"
    and "socket_socket w = None"
    and "create_dns_query (random_randint w) domain rtype = Inr query"
    and "sock_sendto w query nameserver 53 = None"
    and "sock_recvfrom w 512 = Inr reply"
    and "length reply < 12 \<or> reply_rcode reply \<noteq> 0"
  shows "fst (check_dns w domain record_type nameserver) =
     \<lparr> success = False, response_time_ms = None, timestamp = now_isoformat w,
       error = Some (if length reply < 12 then ''Response too short''
                     else ''DNS response code: '' @ str_int (reply_rcode reply)),
       dns_domain = domain, dns_record_type = record_type, records = {} \<rparr>"
proof (cases "length reply < 12")
  case True
  then show ?thesis
    using assms(1) dns_try_reply [OF assms(2-5)]
    by (simp add: check_dns_def parse_short dns_failure_def)
next
  case False
  then have "12 \<le> length reply" "reply_rcode reply \<noteq> 0" using assms(6) by auto
  then show ?thesis
    using assms(1) dns_try_reply [OF assms(2-5)] False
    by (simp add: check_dns_def parse_rcode dns_failure_def)
qed

lemma example_query:
  "create_dns_query 0x1234 ''example.com'' 1 =
     Inr [0x12, 0x34, 1, 0, 0, 1, 0, 0, 0, 0, 0, 0, 7, 0x65, 0x78, 0x61, 0x6D, 0x70, 0x6C, 0x65,
          3, 0x63, 0x6F, 0x6D, 0, 0, 1, 0, 1]"
  by (simp add: create_dns_query_def encode_def bytes_of_int_def)

text \<open>
  A reply with response code 3 (name error), through the theorem.
\<close>

theorem check_dns_bad_reply_witness:
  "fst (check_dns (world_replying [0x12, 0x34, 0x81, 0x83, 0, 1, 0, 0, 0, 0, 0, 0])
          ''example.com'' ''A'' ''8.8.8.8'') =
     \<lparr> success = False, response_time_ms = None, timestamp = ''2025-01-01T00:00:00'',
       error = Some ''DNS response code: 3'',
       dns_domain = ''example.com'', dns_record_type = ''A'', records = {} \<rparr>"
proof -
  let ?reply = "[0x12, 0x34, 0x81, 0x83, 0, 1, 0, 0, 0, 0, 0, 0] :: byte list"
  let ?w = "world_replying ?reply"
  have h1: "record_types ''A'' = Some 1" by (simp add: record_types_def)
  have h2: "socket_socket ?w = None" by (simp add: world_replying_def quiet_world_def)
  have h3: "create_dns_query (random_randint ?w) ''example.com'' 1 =
     Inr [0x12, 0x34, 1, 0, 0, 1, 0, 0, 0, 0, 0, 0, 7, 0x65, 0x78, 0x61, 0x6D, 0x70, 0x6C, 0x65,
          3, 0x63, 0x6F, 0x6D, 0, 0, 1, 0, 1]"
    using example_query by (simp add: world_replying_def quiet_world_def)
  have h4: "sock_sendto ?w [0x12, 0x34, 1, 0, 0, 1, 0, 0, 0, 0, 0, 0, 7, 0x65, 0x78, 0x61, 0x6D, 0x70, 0x6C, 0x65,
          3, 0x63, 0x6F, 0x6D, 0, 0, 1, 0, 1] ''8.8.8.8'' 53 = None"
    by (simp add: world_replying_def quiet_world_def)
  have h5: "sock_recvfrom ?w 512 = Inr ?reply" by (simp add: world_replying_def quiet_world_def)
  have rc: "reply_rcode ?reply = 3" by (simp add: reply_rcode_def reply_flags_def be16_def)
  have h6: "length ?reply < 12 \<or> reply_rcode ?reply \<noteq> 0" by (simp add: rc)
  have now: "now_isoformat ?w = ''2025-01-01T00:00:00''"
    by (simp add: world_replying_def quiet_world_def)
  from check_dns_bad_reply [OF h1 h2 h3 h4 h5 h6] show ?thesis
    by (simp add: rc now str_int_def digit_char_def)
qed

text \<open>
  Claim C5, as stated, promises a non-null \<open>response_time_ms\<close> for a short reply. For a
  reply of three bytes the result carries no timing.
\<close>

theorem check_dns_short_reply_timing:
  "fst (check_dns (world_replying [0x12, 0x34, 0x81]) ''example.com'' ''A'' ''8.8.8.8'') =
     \<lparr> success = False, response_time_ms = None, timestamp = ''2025-01-01T00:00:00'',
       error = Some ''Response too short'',
       dns_domain = ''example.com'', dns_record_type = ''A'', records = {} \<rparr>"
  by (simp add: check_dns_def dns_try_def record_types_def world_replying_def quiet_world_def
      example_query parse_short dns_failure_def)

text \<open>
  Claim C10, as stated, has success for every reply with response code 0. When the
  header announces an answer and \<open>getaddrinfo\<close> raises an exception that is no
  \<open>gaierror\<close> (the IDNA encoding of a name with an empty label), the exception reaches
  the outer handler and the result is a failure.
\<close>

theorem check_dns_resolver_fault:
  "fst (check_dns (world_resolver_fault [0x12, 0x34, 0x81, 0x80, 0, 1, 0, 1, 0, 0, 0, 0])
          ''example..com'' ''A'' ''8.8.8.8'') =
     \<lparr> success = False, response_time_ms = None, timestamp = ''2025-01-01T00:00:00'',
       error = Some ''encoding with idna codec failed (UnicodeError: label empty or too long)'',
       dns_domain = ''example..com'', dns_record_type = ''A'', records = {} \<rparr>"
proof -
  let ?reply = "[0x12, 0x34, 0x81, 0x80, 0, 1, 0, 1, 0, 0, 0, 0] :: byte list"
  have q: "create_dns_query 0x1234 ''example..com'' 1 =
     Inr [0x12, 0x34, 1, 0, 0, 1, 0, 0, 0, 0, 0, 0, 7, 0x65, 0x78, 0x61, 0x6D, 0x70, 0x6C, 0x65,
          0, 3, 0x63, 0x6F, 0x6D, 0, 0, 1, 0, 1]"
    by (simp add: create_dns_query_def encode_def bytes_of_int_def)
  have rc: "reply_rcode ?reply = 0" by (simp add: reply_rcode_def reply_flags_def be16_def)
  have an: "reply_ancount ?reply = 1" by (simp add: reply_ancount_def be16_def)
  let ?w = "world_resolver_fault ?reply"
  have h2: "socket_socket ?w = None"
    by (simp add: world_resolver_fault_def world_replying_def quiet_world_def)
  have h3: "create_dns_query (random_randint ?w) ''example..com'' 1 =
     Inr [0x12, 0x34, 1, 0, 0, 1, 0, 0, 0, 0, 0, 0, 7, 0x65, 0x78, 0x61, 0x6D, 0x70, 0x6C, 0x65,
          0, 3, 0x63, 0x6F, 0x6D, 0, 0, 1, 0, 1]"
    using q by (simp add: world_resolver_fault_def world_replying_def quiet_world_def)
  have h4: "sock_sendto ?w [0x12, 0x34, 1, 0, 0, 1, 0, 0, 0, 0, 0, 0, 7, 0x65, 0x78, 0x61, 0x6D,
          0x70, 0x6C, 0x65, 0, 3, 0x63, 0x6F, 0x6D, 0, 0, 1, 0, 1] ''8.8.8.8'' 53 = None"
    by (simp add: world_resolver_fault_def world_replying_def quiet_world_def)
  have h5: "sock_recvfrom ?w 512 = Inr ?reply"
    by (simp add: world_resolver_fault_def world_replying_def quiet_world_def)
  have gai: "socket_getaddrinfo ?w ''example..com'' =
     Inl (Exn OtherException
            ''encoding with idna codec failed (UnicodeError: label empty or too long)'')"
    by (simp add: world_resolver_fault_def)
  have env: "now_isoformat ?w = ''2025-01-01T00:00:00''"
    by (simp add: world_resolver_fault_def world_replying_def quiet_world_def)
  have p: "parse_dns_response ?w ''example..com'' ''A'' ?reply t =
     Inl (Exn OtherException
            ''encoding with idna codec failed (UnicodeError: label empty or too long)'')" for t
    using parse_ok [of ?reply ?w "''example..com''" "''A''" t] rc an
    by (simp add: lookup_records_def gai)
  have "dns_try ?w ''example..com'' ''A'' 1 ''8.8.8.8'' =
     (Inl (Exn OtherException
            ''encoding with idna codec failed (UnicodeError: label empty or too long)''),
      [SockOpen, SockSettimeout 3.0,
       SockSendto [0x12, 0x34, 1, 0, 0, 1, 0, 0, 0, 0, 0, 0, 7, 0x65, 0x78, 0x61, 0x6D,
          0x70, 0x6C, 0x65, 0, 3, 0x63, 0x6F, 0x6D, 0, 0, 1, 0, 1] ''8.8.8.8'' 53,
       SockRecvfrom 512, SockClose])"
    using dns_try_reply [OF h2 h3 h4 h5, of "''A''"] by (simp only: p)
  then show ?thesis
    by (simp add: check_dns_def record_types_def dns_failure_def env)
qed

text \<open>
  Claim C10, amended. When the reply has at least 12 bytes and response code 0, and
  \<open>getaddrinfo\<close>, which is called only for a positive answer count, raises nothing but
  \<open>socket.gaierror\<close>, \<open>check_dns\<close> returns success with no error. The records are those
  of the lookup; when the answer count of the header is 0 or \<open>getaddrinfo\<close> raises
  \<open>gaierror\<close>, the record list is empty.
\<close>

theorem check_dns_success_without_records:
  assumes "record_types record_type = Some rtype"
    and "socket_socket w = None"
    and "create_dns_query (random_randint w) domain rtype = Inr query"
    and "sock_sendto w query nameserver 53 = None"
    and "sock_recvfrom w 512 = Inr reply"
    and "12 \<le> length reply"
    and "reply_rcode reply = 0"
    and "\<And>e. 0 < reply_ancount reply \<Longrightarrow> socket_getaddrinfo w domain = Inl e \<Longrightarrow>
           exn_kind e = Gaierror"
  shows "fst (check_dns w domain record_type nameserver) =
     \<lparr> success = True,
       response_time_ms = Some (round2 ((time_end w - time_start w) * 1000)),
       timestamp = now_isoformat w, error = None,
       dns_domain = domain, dns_record_type = record_type,
       records = (if 0 < reply_ancount reply
                  then (case socket_getaddrinfo w domain of
                          Inr addrs \<Rightarrow> set (collect_records record_type addrs [])
                        | Inl e \<Rightarrow> {})
                  else {}) \<rparr> \<and>
    (reply_ancount reply = 0 \<or>
     (\<exists>e. socket_getaddrinfo w domain = Inl e \<and> exn_kind e = Gaierror) \<longrightarrow>
       records (fst (check_dns w domain record_type nameserver)) = {})"
proof -
  have res: "fst (check_dns w domain record_type nameserver) =
     \<lparr> success = True,
       response_time_ms = Some (round2 ((time_end w - time_start w) * 1000)),
       timestamp = now_isoformat w, error = None,
       dns_domain = domain, dns_record_type = record_type,
       records = (if 0 < reply_ancount reply
                  then (case socket_getaddrinfo w domain of
                          Inr addrs \<Rightarrow> set (collect_records record_type addrs [])
                        | Inl e \<Rightarrow> {})
                  else {}) \<rparr>"
  proof (cases "0 < reply_ancount reply")
    case False
    then have "lookup_records w domain record_type (reply_ancount reply) = Inr []"
      by (simp add: lookup_records_def)
    with False show ?thesis
      by (simp add: check_dns_def assms(1) dns_try_reply [OF assms(2-5)]
          parse_ok [OF assms(6,7)])
  next
    case True
    show ?thesis
    proof (cases "socket_getaddrinfo w domain")
      case (Inl e)
      with True assms(8) have "exn_kind e = Gaierror" by blast
      with True Inl have "lookup_records w domain record_type (reply_ancount reply) = Inr []"
        by (simp add: lookup_records_def)
      with True Inl show ?thesis
        by (simp add: check_dns_def assms(1) dns_try_reply [OF assms(2-5)]
            parse_ok [OF assms(6,7)])
    next
      case (Inr addrs)
      with True have "lookup_records w domain record_type (reply_ancount reply) =
          Inr (collect_records record_type addrs [])"
        by (simp add: lookup_records_def)
      with True Inr show ?thesis
        by (simp add: check_dns_def assms(1) dns_try_reply [OF assms(2-5)]
            parse_ok [OF assms(6,7)])
    qed
  qed
  have "reply_ancount reply = 0 \<or>
     (\<exists>e. socket_getaddrinfo w domain = Inl e \<and> exn_kind e = Gaierror) \<longrightarrow>
       records (fst (check_dns w domain record_type nameserver)) = {}"
  proof
    assume "reply_ancount reply = 0 \<or>
      (\<exists>e. socket_getaddrinfo w domain = Inl e \<and> exn_kind e = Gaierror)"
    then show "records (fst (check_dns w domain record_type nameserver)) = {}"
    proof
      assume "reply_ancount reply = 0"
      then show ?thesis unfolding res by simp
    next
      assume "\<exists>e. socket_getaddrinfo w domain = Inl e \<and> exn_kind e = Gaierror"
      then obtain e where "socket_getaddrinfo w domain = Inl e" by blast
      then show ?thesis unfolding res by (cases "0 < reply_ancount reply") simp_all
    qed
  qed
  with res show ?thesis by (rule conjI)
qed

text \<open>
  A reply announcing one answer in a world whose resolver raises \<open>gaierror\<close>.
\<close>

theorem check_dns_success_without_records_witness:
  "fst (check_dns (world_replying [0x12, 0x34, 0x81, 0x80, 0, 1, 0, 1, 0, 0, 0, 0])
          ''example.com'' ''A'' ''8.8.8.8'') =
     \<lparr> success = True, response_time_ms = Some 0, timestamp = ''2025-01-01T00:00:00'',
       error = None, dns_domain = ''example.com'', dns_record_type = ''A'', records = {} \<rparr>"
proof -
  let ?reply = "[0x12, 0x34, 0x81, 0x80, 0, 1, 0, 1, 0, 0, 0, 0] :: byte list"
  let ?w = "world_replying ?reply"
  have h1: "record_types ''A'' = Some 1" by (simp add: record_types_def)
  have h2: "socket_socket ?w = None" by (simp add: world_replying_def quiet_world_def)
  have h3: "create_dns_query (random_randint ?w) ''example.com'' 1 =
     Inr [0x12, 0x34, 1, 0, 0, 1, 0, 0, 0, 0, 0, 0, 7, 0x65, 0x78, 0x61, 0x6D, 0x70, 0x6C, 0x65,
          3, 0x63, 0x6F, 0x6D, 0, 0, 1, 0, 1]"
    using example_query by (simp add: world_replying_def quiet_world_def)
  have h4: "sock_sendto ?w [0x12, 0x34, 1, 0, 0, 1, 0, 0, 0, 0, 0, 0, 7, 0x65, 0x78, 0x61, 0x6D, 0x70, 0x6C, 0x65,
          3, 0x63, 0x6F, 0x6D, 0, 0, 1, 0, 1] ''8.8.8.8'' 53 = None"
    by (simp add: world_replying_def quiet_world_def)
  have h5: "sock_recvfrom ?w 512 = Inr ?reply" by (simp add: world_replying_def quiet_world_def)
  have h6: "12 \<le> length ?reply" by simp
  have h7: "reply_rcode ?reply = 0" by (simp add: reply_rcode_def reply_flags_def be16_def)
  have gai: "socket_getaddrinfo ?w ''example.com'' =
          Inl (Exn Gaierror ''[Errno -2] Name or service not known'')"
    by (simp add: world_replying_def quiet_world_def)
  have h8: "exn_kind e = Gaierror"
    if "0 < reply_ancount ?reply" and "socket_getaddrinfo ?w ''example.com'' = Inl e" for e
    using that(2) unfolding gai by auto
  have env: "now_isoformat ?w = ''2025-01-01T00:00:00''" "time_end ?w = 0" "time_start ?w = 0"
    by (simp_all add: world_replying_def quiet_world_def)
  from check_dns_success_without_records [OF h1 h2 h3 h4 h5 h6 h7 h8]
  have "fst (check_dns ?w ''example.com'' ''A'' ''8.8.8.8'') =
     \<lparr> success = True,
       response_time_ms = Some (round2 ((time_end ?w - time_start ?w) * 1000)),
       timestamp = now_isoformat ?w, error = None,
       dns_domain = ''example.com'', dns_record_type = ''A'',
       records = (if 0 < reply_ancount ?reply
                  then (case socket_getaddrinfo ?w ''example.com'' of
                          Inr addrs \<Rightarrow> set (collect_records ''A'' addrs [])
                        | Inl e \<Rightarrow> {})
                  else {}) \<rparr>"
    by (rule conjunct1)
  then show ?thesis by (simp add: env gai round2_def)
qed

text \<open>
  Claim C9 says that every socket is closed on every exit path. The source calls
  \<open>sock.close()\<close> only after a reply (or a connect result) has arrived: when
  \<open>recvfrom\<close> times out in \<open>check_dns\<close>, or \<open>connect_ex\<close> raises on an unresolvable
  host in \<open>check_port\<close>, the handler returns with the socket still open. On the paths
  without an exception the socket is closed.
\<close>

theorem sockets_left_open_on_exceptions:
  "sockets_left_open (snd (check_dns quiet_world ''example.com'' ''A'' ''8.8.8.8'')) = 1 \<and>
   sockets_left_open (snd (check_port world_unresolvable ''no-such-host.invalid'' 80 3)) = 1 \<and>
   sockets_left_open (snd (check_dns (world_replying [0x12, 0x34, 0x81, 0x80, 0, 1, 0, 1, 0, 0, 0, 0])
                              ''example.com'' ''A'' ''8.8.8.8'')) = 0 \<and>
   sockets_left_open (snd (check_port world_listening ''example.com'' 80 3)) = 0"
  by (simp add: check_dns_def dns_try_def check_port_def record_types_def example_query
      world_replying_def world_unresolvable_def world_listening_def quiet_world_def
      sockets_left_open_def split: prod.splits sum.splits)

section \<open>HTTP Probe: the claim\<close>

text \<open>
  Claim C6. \<open>check_http_response\<close> issues one request. It returns success exactly when
  the request returns a response, whatever the status code, with the status code, the
  timing and the length of the body; when the request raises, it returns a failure with
  status code, timing and content length null and the text of the exception as error.
\<close>

theorem check_http_response_classification:
  "(success (fst (check_http_response w url method headers data timeout verify_ssl)) \<longleftrightarrow>
      (\<exists>resp. requests_call w (Request (upper method) url
                  (case headers of None \<Rightarrow> [] | Some h \<Rightarrow> h)
                  (if upper method \<noteq> ''GET'' then data else None) timeout verify_ssl) = Inr resp)) \<and>
   check_http_response w url method headers data timeout verify_ssl =
     ((case requests_call w (Request (upper method) url
                  (case headers of None \<Rightarrow> [] | Some h \<Rightarrow> h)
                  (if upper method \<noteq> ''GET'' then data else None) timeout verify_ssl) of
        Inr resp \<Rightarrow>
          \<lparr> success = True,
            response_time_ms = Some (round2 ((time_end w - time_start w) * 1000)),
            timestamp = now_isoformat w, error = None, http_url = url,
            http_status_code = Some (status_code resp),
            content_length = Some (length (content resp)) \<rparr>
      | Inl e \<Rightarrow>
          \<lparr> success = False, response_time_ms = None,
            timestamp = now_isoformat w, error = Some (exn_text e), http_url = url,
            http_status_code = None, content_length = None \<rparr>),
      [Request (upper method) url
         (case headers of None \<Rightarrow> [] | Some h \<Rightarrow> h)
         (if upper method \<noteq> ''GET'' then data else None) timeout verify_ssl])"
  by (simp add: check_http_response_def Let_def split: sum.splits)

text \<open>
  A response with status 500 is a success with \<open>status_code\<close> 500.
\<close>

theorem check_http_response_500:
  "check_http_response
     (world_http (http_response 500 ''Internal Server Error'' ''https://example.com/'' (JsonNotDict ''str'')))
     ''https://example.com/'' ''get'' None None 10 True =
   (\<lparr> success = True, response_time_ms = Some 0, timestamp = ''2025-01-01T00:00:00'',
      error = None, http_url = ''https://example.com/'', http_status_code = Some 500,
      content_length = Some 4 \<rparr>,
    [Request ''GET'' ''https://example.com/'' [] None 10 True])"
  using check_http_response_classification
    [of "world_http (http_response 500 ''Internal Server Error'' ''https://example.com/'' (JsonNotDict ''str''))"
        "''https://example.com/''" "''get''" None None 10 True]
  by (simp add: world_http_def quiet_world_def http_response_def upper_def upper_char_def
      round2_def encode_def)


section \<open>Registry Manifest Probe: the claims\<close>

lemma manifest_try_head:
  assumes "fetch_token w registry_host repo timeout = (Inr token, calls)"
  shows "manifest_try w image_name registry_host repo tag0 timeout =
     ((case requests_call w (Head (manifest_url registry_host repo tag0)
                               (manifest_headers token) timeout) of
         Inl e \<Rightarrow> Inl e
       | Inr resp \<Rightarrow>
           if status_code resp = 200
           then Inr (Some
             \<lparr> success = True,
               response_time_ms = Some (round2 ((time_end w - time_start w) * 1000)),
               timestamp = now_isoformat w, error = None,
               manifest_image_name = image_name, manifest_registry = registry_host,
               manifest_status_code = Some (status_code resp),
               message = status_text ''Image manifest found'' (status_code resp) \<rparr>)
           else if status_code resp = 404
           then Inr (Some
             \<lparr> success = False,
               response_time_ms = Some (round2 ((time_end w - time_start w) * 1000)),
               timestamp = now_isoformat w,
               error = Some (status_text ''Image manifest not found'' (status_code resp)),
               manifest_image_name = image_name, manifest_registry = registry_host,
               manifest_status_code = Some (status_code resp),
               message = status_text ''Image manifest not found'' (status_code resp) \<rparr>)
           else (case raise_for_status resp of Some e \<Rightarrow> Inl e | None \<Rightarrow> Inr None)),
      calls @ [Head (manifest_url registry_host repo tag0) (manifest_headers token) timeout])"
  using assms by (simp add: manifest_try_def Let_def split: sum.splits)

lemma status_text_200: "status_text what 200 = what @ '' (Status: 200)''"
  by (simp add: status_text_def str_int_def digit_char_def)

lemma status_text_404: "status_text what 404 = what @ '' (Status: 404)''"
  by (simp add: status_text_def str_int_def digit_char_def)

text \<open>
  Claim C3, amended. Once the reference is resolved and the token stage has not failed,
  the HEAD request decides: status 200 gives success with the status in the message and
  as status code; status 404 gives a failure whose error says that the manifest was not
  found, with status code 404; any other status from 400 to 599 and any exception of the
  request give a failure with a null status code, the text of the exception as message,
  and as error that text after the prefix of the handler that caught it.
\<close>

theorem manifest_classification:
  assumes "parse_image_name image_name registry_override = Inr ref"
    and "fetch_token w (registry ref) (repository ref) timeout = (Inr token, calls)"
    and "requests_call w (Head (manifest_url (registry ref) (repository ref) (tag ref))
                            (manifest_headers token) timeout) = outcome"
  shows
   "(outcome = Inr resp \<and> status_code resp = 200 \<longrightarrow>
       fst (check_image_manifest_sync w image_name registry_override timeout) =
         Inr (Some
           \<lparr> success = True,
             response_time_ms = Some (round2 ((time_end w - time_start w) * 1000)),
             timestamp = now_isoformat w, error = None,
             manifest_image_name = image_name, manifest_registry = registry ref,
             manifest_status_code = Some 200,
             message = ''Image manifest found (Status: 200)'' \<rparr>)) \<and>
    (outcome = Inr resp \<and> status_code resp = 404 \<longrightarrow>
       fst (check_image_manifest_sync w image_name registry_override timeout) =
         Inr (Some
           \<lparr> success = False,
             response_time_ms = Some (round2 ((time_end w - time_start w) * 1000)),
             timestamp = now_isoformat w,
             error = Some ''Image manifest not found (Status: 404)'',
             manifest_image_name = image_name, manifest_registry = registry ref,
             manifest_status_code = Some 404,
             message = ''Image manifest not found (Status: 404)'' \<rparr>)) \<and>
    (outcome = Inr resp \<and> 400 \<le> status_code resp \<and> status_code resp < 600 \<and>
     status_code resp \<noteq> 404 \<longrightarrow>
       fst (check_image_manifest_sync w image_name registry_override timeout) =
         Inr (Some
           \<lparr> success = False,
             response_time_ms = Some (round2 ((time_end w - time_start w) * 1000)),
             timestamp = now_isoformat w,
             error = Some (''HTTP Request Error: '' @ http_error_text resp),
             manifest_image_name = image_name, manifest_registry = registry ref,
             manifest_status_code = None,
             message = http_error_text resp \<rparr>)) \<and>
    (outcome = Inl e \<longrightarrow>
       fst (check_image_manifest_sync w image_name registry_override timeout) =
         Inr (Some
           \<lparr> success = False,
             response_time_ms = Some (round2 ((time_end w - time_start w) * 1000)),
             timestamp = now_isoformat w,
             error = Some ((if exn_kind e = RequestException then ''HTTP Request Error: ''
                            else ''An unexpected error occurred: '') @ exn_text e),
             manifest_image_name = image_name, manifest_registry = registry ref,
             manifest_status_code = None,
             message = exn_text e \<rparr>))"
proof -
  note run = manifest_try_head [OF assms(2), of image_name "tag ref", unfolded assms(3)]
  have c200: "outcome = Inr resp \<and> status_code resp = 200 \<longrightarrow>
       fst (check_image_manifest_sync w image_name registry_override timeout) =
         Inr (Some
           \<lparr> success = True,
             response_time_ms = Some (round2 ((time_end w - time_start w) * 1000)),
             timestamp = now_isoformat w, error = None,
             manifest_image_name = image_name, manifest_registry = registry ref,
             manifest_status_code = Some 200,
             message = ''Image manifest found (Status: 200)'' \<rparr>)"
    by (simp add: check_image_manifest_sync_def assms(1) run status_text_200)
  have c404: "outcome = Inr resp \<and> status_code resp = 404 \<longrightarrow>
       fst (check_image_manifest_sync w image_name registry_override timeout) =
         Inr (Some
           \<lparr> success = False,
             response_time_ms = Some (round2 ((time_end w - time_start w) * 1000)),
             timestamp = now_isoformat w,
             error = Some ''Image manifest not found (Status: 404)'',
             manifest_image_name = image_name, manifest_registry = registry ref,
             manifest_status_code = Some 404,
             message = ''Image manifest not found (Status: 404)'' \<rparr>)"
    by (simp add: check_image_manifest_sync_def assms(1) run status_text_404)
  have cerr: "outcome = Inr resp \<and> 400 \<le> status_code resp \<and> status_code resp < 600 \<and>
     status_code resp \<noteq> 404 \<longrightarrow>
       fst (check_image_manifest_sync w image_name registry_override timeout) =
         Inr (Some
           \<lparr> success = False,
             response_time_ms = Some (round2 ((time_end w - time_start w) * 1000)),
             timestamp = now_isoformat w,
             error = Some (''HTTP Request Error: '' @ http_error_text resp),
             manifest_image_name = image_name, manifest_registry = registry ref,
             manifest_status_code = None,
             message = http_error_text resp \<rparr>)"
    by (simp add: check_image_manifest_sync_def assms(1) run raise_for_status_def
        manifest_failure_def)
  have cexn: "outcome = Inl e \<longrightarrow>
       fst (check_image_manifest_sync w image_name registry_override timeout) =
         Inr (Some
           \<lparr> success = False,
             response_time_ms = Some (round2 ((time_end w - time_start w) * 1000)),
             timestamp = now_isoformat w,
             error = Some ((if exn_kind e = RequestException then ''HTTP Request Error: ''
                            else ''An unexpected error occurred: '') @ exn_text e),
             manifest_image_name = image_name, manifest_registry = registry ref,
             manifest_status_code = None,
             message = exn_text e \<rparr>)"
    by (simp add: check_image_manifest_sync_def assms(1) run manifest_failure_def)
  from c200 c404 cerr cexn show ?thesis by (intro conjI)
qed


lemmas probe_eval =
  check_image_manifest_sync_def manifest_try_def fetch_token_def manifest_failure_def
  is_docker_hub_or_mirror_def endswith_def raise_for_status_def http_error_text_def
  manifest_headers_def manifest_url_def token_url_def status_text_def str_int_def
  digit_char_def round2_def registry_world_def quiet_world_def http_response_def
  token_granted_def

text \<open>
  A repository that does not exist on Docker Hub: status 404.
\<close>

theorem manifest_classification_witness:
  "fst (check_image_manifest_sync
          (registry_world (Inr token_granted)
             (Inr (http_response 404 ''Not Found''
                ''https://registry-1.docker.io/v2/library/nonexistent-image-for-test/manifests/latest''
                (JsonNotDict ''str''))))
          ''nonexistent-image-for-test:latest'' None 10) =
     Inr (Some
       \<lparr> success = False, response_time_ms = Some 0, timestamp = ''2025-01-01T00:00:00'',
         error = Some ''Image manifest not found (Status: 404)'',
         manifest_image_name = ''nonexistent-image-for-test:latest'',
         manifest_registry = ''registry-1.docker.io'',
         manifest_status_code = Some 404,
         message = ''Image manifest not found (Status: 404)'' \<rparr>)"
proof -
  let ?resp = "http_response 404 ''Not Found''
      ''https://registry-1.docker.io/v2/library/nonexistent-image-for-test/manifests/latest''
      (JsonNotDict ''str'')"
  let ?w = "registry_world (Inr token_granted) (Inr ?resp)"
  let ?ref = "\<lparr> registry = ''registry-1.docker.io'',
                repository = ''library/nonexistent-image-for-test'', tag = ''latest'' \<rparr>"
  have h1: "parse_image_name ''nonexistent-image-for-test:latest'' None = Inr ?ref"
    by (simp add: parse_image_name_defs)
  have h2: "fetch_token ?w (registry ?ref) (repository ?ref) 10 =
     (Inr (JString ''abc''), [Get (token_url (repository ?ref)) 10])"
    by (simp add: probe_eval)
  have h3: "requests_call ?w (Head (manifest_url (registry ?ref) (repository ?ref) (tag ?ref))
                               (manifest_headers (JString ''abc'')) 10) = Inr ?resp"
    by (simp add: registry_world_def quiet_world_def)
  have st: "status_code ?resp = 404" by (simp add: http_response_def)
  have env: "time_end ?w = 0" "time_start ?w = 0" "now_isoformat ?w = ''2025-01-01T00:00:00''"
    by (simp_all add: registry_world_def quiet_world_def)
  from manifest_classification [OF h1 h2 h3, of ?resp] st show ?thesis
    by (simp add: env round2_def)
qed

text \<open>
  Claim C3, as stated, has the exception text as both error and message. For the 401
  that the docstring of \<open>check_image_pull\<close> quotes, the message is the text and the error
  is the text after \<open>HTTP Request Error: \<close>.
\<close>

theorem manifest_error_text_counterexample:
  "fst (check_image_manifest_sync
          (registry_world (Inr token_granted)
             (Inr (http_response 401 ''Unauthorized''
                ''https://docker.m.daocloud.io/v2/hello-world/manifests/latest''
                (JsonNotDict ''str''))))
          ''hello-world'' (Some ''docker.m.daocloud.io'') 10) =
     Inr (Some
       \<lparr> success = False, response_time_ms = Some 0, timestamp = ''2025-01-01T00:00:00'',
         error = Some (''HTTP Request Error: 401 Client Error: Unauthorized for url: '' @
                       ''https://docker.m.daocloud.io/v2/hello-world/manifests/latest''),
         manifest_image_name = ''hello-world'',
         manifest_registry = ''docker.m.daocloud.io'',
         manifest_status_code = None,
         message = ''401 Client Error: Unauthorized for url: '' @
                   ''https://docker.m.daocloud.io/v2/hello-world/manifests/latest'' \<rparr>)"
  by (simp add: probe_eval parse_image_name_defs)

lemma endswith_iff: "endswith s p \<longleftrightarrow> (\<exists>q. s = q @ p)"
proof
  assume "endswith s p"
  then have "s = take (length s - length p) s @ p"
    unfolding endswith_def by (metis append_take_drop_id)
  then show "\<exists>q. s = q @ p" ..
next
  assume "\<exists>q. s = q @ p"
  then show "endswith s p" by (auto simp: endswith_def)
qed

lemma contains_iff: "contains s p \<longleftrightarrow> (\<exists>q r. s = q @ p @ r)"
proof (induction s)
  case Nil
  then show ?case by auto
next
  case (Cons x xs)
  show ?case
  proof
    assume "contains (x # xs) p"
    then consider "startswith (x # xs) p" | "contains xs p" by auto
    then show "\<exists>q r. x # xs = q @ p @ r"
    proof cases
      case 1
      then obtain r where "x # xs = p @ r" unfolding startswith_iff ..
      then have "x # xs = [] @ p @ r" by simp
      then show ?thesis by blast
    next
      case 2
      then obtain q r where "xs = q @ p @ r" using Cons.IH by blast
      then have "x # xs = (x # q) @ p @ r" by simp
      then show ?thesis by blast
    qed
  next
    assume "\<exists>q r. x # xs = q @ p @ r"
    then obtain q r where e: "x # xs = q @ p @ r" by blast
    show "contains (x # xs) p"
    proof (cases q)
      case Nil
      with e have "startswith (x # xs) p" unfolding startswith_iff by auto
      then show ?thesis by simp
    next
      case (Cons y ys)
      with e have "xs = ys @ p @ r" by simp
      then have "contains xs p" using Cons.IH by blast
      then show ?thesis by simp
    qed
  qed
qed

lemma is_docker_hub_or_mirror_iff:
  "is_docker_hub_or_mirror h \<longleftrightarrow>
     (h = ''registry-1.docker.io'' \<or> (\<exists>p. h = p @ ''docker.io'') \<or>
      (\<exists>p s. h = p @ ''daocloud.io'' @ s))"
  unfolding is_docker_hub_or_mirror_def endswith_iff contains_iff ..

lemma fetch_token_calls:
  "snd (fetch_token w h repo timeout) =
     (if is_docker_hub_or_mirror h then [Get (token_url repo) timeout] else [])"
  by (simp add: fetch_token_def Let_def)

lemma manifest_try_calls:
  "snd (manifest_try w image_name h repo tag0 timeout) =
     snd (fetch_token w h repo timeout) \<or>
   (\<exists>hs. snd (manifest_try w image_name h repo tag0 timeout) =
     snd (fetch_token w h repo timeout) @ [Head (manifest_url h repo tag0) hs timeout])"
  by (cases "fetch_token w h repo timeout")
     (auto simp: manifest_try_def Let_def split: sum.splits)

lemma sync_calls:
  "parse_image_name image_name registry_override = Inr ref \<Longrightarrow>
   snd (check_image_manifest_sync w image_name registry_override timeout) =
   snd (manifest_try w image_name (registry ref) (repository ref) (tag ref) timeout)"
  by (simp add: check_image_manifest_sync_def split: prod.splits sum.splits)

lemma token_requested_iff:
  assumes "parse_image_name image_name registry_override = Inr ref"
  shows "(\<exists>u t. Get u t \<in> set (snd (check_image_manifest_sync w image_name registry_override timeout)))
     \<longleftrightarrow> is_docker_hub_or_mirror (registry ref)"
  using manifest_try_calls [of w image_name "registry ref" "repository ref" "tag ref" timeout]
  by (auto simp: sync_calls [OF assms] fetch_token_calls split: if_splits)


text \<open>
  Claim C4, amended. A token is requested exactly when the resolved registry is
  \<open>registry-1.docker.io\<close>, ends with \<open>docker.io\<close> or contains \<open>daocloud.io\<close>. A token
  response with a status from 200 to 299 whose JSON object has no \<open>token\<close> field is
  followed by the manifest request, sent without an Authorization header. A token
  response with a status from 400 to 599 ends the call: the result is a failure and no
  manifest request is made.
\<close>

theorem token_stage:
  assumes "parse_image_name image_name registry_override = Inr ref"
  shows
   "((\<exists>u t. Get u t \<in> set (snd (check_image_manifest_sync w image_name registry_override timeout)))
       \<longleftrightarrow> (registry ref = ''registry-1.docker.io'' \<or>
            (\<exists>p. registry ref = p @ ''docker.io'') \<or>
            (\<exists>p s. registry ref = p @ ''daocloud.io'' @ s))) \<and>
    (is_docker_hub_or_mirror (registry ref) \<and>
     requests_call w (Get (token_url (repository ref)) timeout) = Inr token_response \<and>
     200 \<le> status_code token_response \<and> status_code token_response < 300 \<and>
     json_result token_response = Inr (JsonDict kvs) \<and> map_of kvs ''token'' = None \<longrightarrow>
       snd (check_image_manifest_sync w image_name registry_override timeout) =
         [Get (token_url (repository ref)) timeout,
          Head (manifest_url (registry ref) (repository ref) (tag ref))
               [(''Accept'', accept_value)] timeout]) \<and>
    (is_docker_hub_or_mirror (registry ref) \<and>
     requests_call w (Get (token_url (repository ref)) timeout) = Inr token_response \<and>
     400 \<le> status_code token_response \<and> status_code token_response < 600 \<longrightarrow>
       check_image_manifest_sync w image_name registry_override timeout =
         (Inr (Some
            \<lparr> success = False,
              response_time_ms = Some (round2 ((time_end w - time_start w) * 1000)),
              timestamp = now_isoformat w,
              error = Some (''HTTP Request Error: '' @ http_error_text token_response),
              manifest_image_name = image_name, manifest_registry = registry ref,
              manifest_status_code = None,
              message = http_error_text token_response \<rparr>),
          [Get (token_url (repository ref)) timeout]))"
proof -
  have a: "(\<exists>u t. Get u t \<in> set (snd (check_image_manifest_sync w image_name registry_override timeout)))
       \<longleftrightarrow> (registry ref = ''registry-1.docker.io'' \<or>
            (\<exists>p. registry ref = p @ ''docker.io'') \<or>
            (\<exists>p s. registry ref = p @ ''daocloud.io'' @ s))"
    unfolding token_requested_iff [OF assms] by (rule is_docker_hub_or_mirror_iff)
  have b: "is_docker_hub_or_mirror (registry ref) \<and>
     requests_call w (Get (token_url (repository ref)) timeout) = Inr token_response \<and>
     200 \<le> status_code token_response \<and> status_code token_response < 300 \<and>
     json_result token_response = Inr (JsonDict kvs) \<and> map_of kvs ''token'' = None \<longrightarrow>
       snd (check_image_manifest_sync w image_name registry_override timeout) =
         [Get (token_url (repository ref)) timeout,
          Head (manifest_url (registry ref) (repository ref) (tag ref))
               [(''Accept'', accept_value)] timeout]"
  proof
    assume h: "is_docker_hub_or_mirror (registry ref) \<and>
     requests_call w (Get (token_url (repository ref)) timeout) = Inr token_response \<and>
     200 \<le> status_code token_response \<and> status_code token_response < 300 \<and>
     json_result token_response = Inr (JsonDict kvs) \<and> map_of kvs ''token'' = None"
    then have "fetch_token w (registry ref) (repository ref) timeout =
        (Inr JNull, [Get (token_url (repository ref)) timeout])"
      by (simp add: fetch_token_def Let_def raise_for_status_def)
    from manifest_try_head [OF this, of image_name "tag ref"]
    show "snd (check_image_manifest_sync w image_name registry_override timeout) =
         [Get (token_url (repository ref)) timeout,
          Head (manifest_url (registry ref) (repository ref) (tag ref))
               [(''Accept'', accept_value)] timeout]"
      by (simp add: sync_calls [OF assms] manifest_headers_def)
  qed
  have c: "is_docker_hub_or_mirror (registry ref) \<and>
     requests_call w (Get (token_url (repository ref)) timeout) = Inr token_response \<and>
     400 \<le> status_code token_response \<and> status_code token_response < 600 \<longrightarrow>
       check_image_manifest_sync w image_name registry_override timeout =
         (Inr (Some
            \<lparr> success = False,
              response_time_ms = Some (round2 ((time_end w - time_start w) * 1000)),
              timestamp = now_isoformat w,
              error = Some (''HTTP Request Error: '' @ http_error_text token_response),
              manifest_image_name = image_name, manifest_registry = registry ref,
              manifest_status_code = None,
              message = http_error_text token_response \<rparr>),
          [Get (token_url (repository ref)) timeout])"
    by (simp add: check_image_manifest_sync_def assms manifest_try_def fetch_token_def Let_def
        raise_for_status_def manifest_failure_def)
  from a b c show ?thesis by (intro conjI)
qed

text \<open>
  Docker Hub answers the token request with an object without a token.
\<close>

theorem token_stage_witness:
  "snd (check_image_manifest_sync
          (registry_world
             (Inr (http_response 200 ''OK'' ''https://auth.docker.io/token''
                     (JsonDict [(''expires_in'', JInt 300)])))
             (Inr (http_response 200 ''OK''
                     ''https://registry-1.docker.io/v2/library/hello-world/manifests/latest''
                     (JsonNotDict ''str''))))
          ''hello-world'' None 10) =
     [Get (''https://auth.docker.io/token?service=registry.docker.io&scope=repository:'' @
           ''library/hello-world:pull'') 10,
      Head ''https://registry-1.docker.io/v2/library/hello-world/manifests/latest''
           [(''Accept'', accept_value)] 10]"
proof -
  let ?tr = "http_response 200 ''OK'' ''https://auth.docker.io/token''
               (JsonDict [(''expires_in'', JInt 300)])"
  let ?w = "registry_world (Inr ?tr)
             (Inr (http_response 200 ''OK''
                     ''https://registry-1.docker.io/v2/library/hello-world/manifests/latest''
                     (JsonNotDict ''str'')))"
  let ?ref = "\<lparr> registry = ''registry-1.docker.io'', repository = ''library/hello-world'',
                tag = ''latest'' \<rparr>"
  have h1: "parse_image_name ''hello-world'' None = Inr ?ref"
    by (simp add: parse_image_name_defs)
  have h2: "is_docker_hub_or_mirror (registry ?ref) \<and>
     requests_call ?w (Get (token_url (repository ?ref)) 10) = Inr ?tr \<and>
     200 \<le> status_code ?tr \<and> status_code ?tr < 300 \<and>
     json_result ?tr = Inr (JsonDict [(''expires_in'', JInt 300)]) \<and>
     map_of [(''expires_in'', JInt 300)] ''token'' = None"
    by (simp add: is_docker_hub_or_mirror_def registry_world_def quiet_world_def
        http_response_def)
  from token_stage [OF h1, of ?w 10 ?tr "[(''expires_in'', JInt 300)]"] h2
  have "snd (check_image_manifest_sync ?w ''hello-world'' None 10) =
         [Get (token_url (repository ?ref)) 10,
          Head (manifest_url (registry ?ref) (repository ?ref) (tag ?ref))
               [(''Accept'', accept_value)] 10]"
    by blast
  then show ?thesis by (simp add: token_url_def manifest_url_def)
qed

text \<open>
  Claim C4, as stated, makes every token response outside 200 to 299 fatal.
  \<open>raise_for_status\<close> raises for 400 to 599 only: after a token response with status 300
  the manifest request is made and the probe succeeds.
\<close>

theorem token_redirect_counterexample:
  "check_image_manifest_sync
     (registry_world
        (Inr (http_response 300 ''Multiple Choices'' ''https://auth.docker.io/token''
                (JsonDict [])))
        (Inr (http_response 200 ''OK''
                ''https://registry-1.docker.io/v2/library/hello-world/manifests/latest''
                (JsonNotDict ''str''))))
     ''hello-world'' None 10 =
   (Inr (Some
      \<lparr> success = True, response_time_ms = Some 0, timestamp = ''2025-01-01T00:00:00'',
        error = None, manifest_image_name = ''hello-world'',
        manifest_registry = ''registry-1.docker.io'', manifest_status_code = Some 200,
        message = ''Image manifest found (Status: 200)'' \<rparr>),
    [Get (''https://auth.docker.io/token?service=registry.docker.io&scope=repository:'' @
          ''library/hello-world:pull'') 10,
     Head ''https://registry-1.docker.io/v2/library/hello-world/manifests/latest''
          [(''Accept'', accept_value)] 10])"
  by (simp add: probe_eval parse_image_name_defs)

text \<open>
  A manifest response that is neither 200 nor 404 nor an error status falls through
  both branches and \<open>raise_for_status\<close>: the function ends without a result.
\<close>

lemma manifest_unclassified_status:
  "check_image_manifest_sync
     (registry_world (Inr token_granted)
        (Inr (http_response 307 ''Temporary Redirect''
                ''https://registry-1.docker.io/v2/library/hello-world/manifests/latest''
                (JsonNotDict ''str''))))
     ''hello-world'' None 10 =
   (Inr None,
    [Get (''https://auth.docker.io/token?service=registry.docker.io&scope=repository:'' @
          ''library/hello-world:pull'') 10,
     Head ''https://registry-1.docker.io/v2/library/hello-world/manifests/latest''
          [(''Accept'', accept_value), (''Authorization'', ''Bearer abc'')] 10])"
  by (simp add: probe_eval parse_image_name_defs)

end
